theory Spec2Isabelle
  imports Main "HOL-Library.Word" "HOL-Library.Sublist"
begin

section \<open>JavaScript strings\<close>

text \<open>
  A JavaScript string is a finite sequence of 16-bit code units. String literals of the
  source are written \<open>js ''...''\<close>. A value that may be \<open>undefined\<close> or \<open>null\<close> is an
  \<open>option\<close>; the only values the handlers test for truthiness are strings and
  \<open>undefined\<close>, and a string is falsy exactly when it is empty.
\<close>

type_synonym jschar = "16 word"
type_synonym jsstring = "jschar list"

definition js :: "string \<Rightarrow> jsstring" where
  "js s = map of_char s"

datatype js_error = URIError | Failure jsstring

definition truthy :: "jsstring option \<Rightarrow> bool" where
  "truthy v = (case v of None \<Rightarrow> False | Some s \<Rightarrow> s \<noteq> [])"

text \<open>\<open>a || b\<close> on values that are strings or \<open>undefined\<close>.\<close>

definition js_or :: "jsstring option \<Rightarrow> jsstring option \<Rightarrow> jsstring option" where
  "js_or a b = (if truthy a then a else b)"

text \<open>A template literal \<open>`${v}`\<close> prints \<open>undefined\<close> for a missing value.\<close>

definition template :: "jsstring option \<Rightarrow> jsstring" where
  "template v = (case v of None \<Rightarrow> js ''undefined'' | Some s \<Rightarrow> s)"

text \<open>
  \<open>String.prototype.split\<close> with a separator of one code unit and no limit: a string
  with \<open>n\<close> separators gives \<open>n + 1\<close> pieces, and the empty string gives one empty piece.
  The first case of the inner \<open>case\<close> is never reached, since the result is never empty.
\<close>

fun split :: "jschar \<Rightarrow> jsstring \<Rightarrow> jsstring list" where
  "split sep [] = [[]]"
| "split sep (c # cs) =
     (if c = sep then [] # split sep cs
      else (case split sep cs of [] \<Rightarrow> [[c]] | p # ps \<Rightarrow> (c # p) # ps))"

text \<open>
  \<open>String.prototype.trim\<close> strips the code units of WhiteSpace and LineTerminator
  from both ends.
\<close>

definition is_white_space :: "jschar \<Rightarrow> bool" where
  "is_white_space c \<longleftrightarrow>
     c \<in> {0x09, 0x0A, 0x0B, 0x0C, 0x0D, 0x20, 0xA0, 0x1680, 0x2028, 0x2029, 0x202F, 0x205F,
           0x3000, 0xFEFF} \<or> (0x2000 \<le> unat c \<and> unat c \<le> 0x200A)"

definition trim :: "jsstring \<Rightarrow> jsstring" where
  "trim s = rev (dropWhile is_white_space (rev (dropWhile is_white_space s)))"

section \<open>Percent-encoding: \<open>encodeURIComponent\<close> and \<open>decodeURIComponent\<close>\<close>

definition is_high_surrogate :: "jschar \<Rightarrow> bool" where
  "is_high_surrogate c \<longleftrightarrow> 0xD800 \<le> unat c \<and> unat c \<le> 0xDBFF"

definition is_low_surrogate :: "jschar \<Rightarrow> bool" where
  "is_low_surrogate c \<longleftrightarrow> 0xDC00 \<le> unat c \<and> unat c \<le> 0xDFFF"

definition is_alnum :: "jschar \<Rightarrow> bool" where
  "is_alnum c \<longleftrightarrow> (0x30 \<le> unat c \<and> unat c \<le> 0x39) \<or> (0x41 \<le> unat c \<and> unat c \<le> 0x5A)
     \<or> (0x61 \<le> unat c \<and> unat c \<le> 0x7A)"

text \<open>The characters \<open>encodeURIComponent\<close> leaves alone: letters, digits and \<open>-_.!~*'()\<close>.\<close>

definition uri_unreserved :: "jschar \<Rightarrow> bool" where
  "uri_unreserved c \<longleftrightarrow> is_alnum c \<or> c \<in> set (js ''-_.!~*'()'')"

definition hex_upper :: "nat \<Rightarrow> jschar" where
  "hex_upper d = (if d < 10 then of_nat (0x30 + d) else of_nat (0x37 + d))"

definition hex_lower :: "nat \<Rightarrow> jschar" where
  "hex_lower d = (if d < 10 then of_nat (0x30 + d) else of_nat (0x57 + d))"

definition hex_value :: "jschar \<Rightarrow> nat option" where
  "hex_value c =
     (if 0x30 \<le> unat c \<and> unat c \<le> 0x39 then Some (unat c - 0x30)
      else if 0x41 \<le> unat c \<and> unat c \<le> 0x46 then Some (unat c - 0x37)
      else if 0x61 \<le> unat c \<and> unat c \<le> 0x66 then Some (unat c - 0x57)
      else None)"

definition hex_octet :: "jschar \<Rightarrow> jschar \<Rightarrow> nat option" where
  "hex_octet h1 h2 =
     (case hex_value h1 of None \<Rightarrow> None
      | Some a \<Rightarrow> (case hex_value h2 of None \<Rightarrow> None | Some b \<Rightarrow> Some (16 * a + b)))"

text \<open>The UTF-8 octets of a code point, and the code units of a code point.\<close>

definition utf8_encode :: "nat \<Rightarrow> nat list" where
  "utf8_encode v =
     (if v < 0x80 then [v]
      else if v < 0x800 then [0xC0 + v div 64, 0x80 + v mod 64]
      else if v < 0x10000 then [0xE0 + v div 4096, 0x80 + (v div 64) mod 64, 0x80 + v mod 64]
      else [0xF0 + v div 262144, 0x80 + (v div 4096) mod 64, 0x80 + (v div 64) mod 64,
            0x80 + v mod 64])"

definition utf16_encode :: "nat \<Rightarrow> jsstring" where
  "utf16_encode v =
     (if v < 0x10000 then [of_nat v]
      else [of_nat (0xD800 + (v - 0x10000) div 1024), of_nat (0xDC00 + (v - 0x10000) mod 1024)])"

definition percent_encode :: "nat list \<Rightarrow> jsstring" where
  "percent_encode octets = concat (map (\<lambda>b. [0x25, hex_upper (b div 16), hex_upper (b mod 16)]) octets)"

text \<open>Put a prefix before the result of the rest, unless the rest has thrown.\<close>

definition then_append :: "jsstring \<Rightarrow> js_error + jsstring \<Rightarrow> js_error + jsstring" where
  "then_append p r = (case r of Inl e \<Rightarrow> Inl e | Inr s \<Rightarrow> Inr (p @ s))"

text \<open>
  \<open>encodeURIComponent\<close> (ECMAScript \<open>Encode\<close>): an unreserved code unit is copied; any
  other code point is written as the percent-escapes of its UTF-8 octets; a surrogate
  that is not part of a pair throws \<open>URIError\<close>.
\<close>

fun encodeURIComponent :: "jsstring \<Rightarrow> js_error + jsstring" where
  "encodeURIComponent [] = Inr []"
| "encodeURIComponent (c # cs) =
     (if uri_unreserved c then then_append [c] (encodeURIComponent cs)
      else if is_low_surrogate c then Inl URIError
      else if \<not> is_high_surrogate c
        then then_append (percent_encode (utf8_encode (unat c))) (encodeURIComponent cs)
      else (case cs of
              [] \<Rightarrow> Inl URIError
            | k # ks \<Rightarrow>
                if \<not> is_low_surrogate k then Inl URIError
                else then_append
                  (percent_encode (utf8_encode
                     ((unat c - 0xD800) * 0x400 + (unat k - 0xDC00) + 0x10000)))
                  (encodeURIComponent ks)))"

text \<open>
  \<open>decodeURIComponent\<close> (ECMAScript \<open>Decode\<close> with an empty reserved set): a code unit
  other than \<open>%\<close> is copied; \<open>%XX\<close> with the top bit clear is one code unit; otherwise
  the first octet announces \<open>n\<close> octets (2 to 4), the next \<open>n - 1\<close> escapes must be
  continuation octets, and the octets must be the UTF-8 encoding of a code point (not
  overlong, not a surrogate, at most \<open>0x10FFFF\<close>). Everything else throws \<open>URIError\<close>.
\<close>

definition utf8_length :: "nat \<Rightarrow> nat" where
  "utf8_length b =
     (if b < 0x80 then 0 else if b < 0xC0 then 1 else if b < 0xE0 then 2
      else if b < 0xF0 then 3 else if b < 0xF8 then 4 else 5)"

fun continuation_octets :: "nat \<Rightarrow> jsstring \<Rightarrow> (nat list \<times> jsstring) option" where
  "continuation_octets 0 s = Some ([], s)"
| "continuation_octets (Suc j) (p # h1 # h2 # s) =
     (if p \<noteq> 0x25 then None
      else (case hex_octet h1 h2 of
              None \<Rightarrow> None
            | Some b \<Rightarrow>
                if \<not> (0x80 \<le> b \<and> b < 0xC0) then None
                else (case continuation_octets j s of
                        None \<Rightarrow> None
                      | Some (os, r) \<Rightarrow> Some (b # os, r))))"
| "continuation_octets (Suc j) s = None"

fun utf8_decode :: "nat list \<Rightarrow> nat option" where
  "utf8_decode [b0, b1] =
     (let v = (b0 - 0xC0) * 64 + (b1 - 0x80) in if 0x80 \<le> v then Some v else None)"
| "utf8_decode [b0, b1, b2] =
     (let v = (b0 - 0xE0) * 4096 + (b1 - 0x80) * 64 + (b2 - 0x80)
      in if 0x800 \<le> v \<and> \<not> (0xD800 \<le> v \<and> v \<le> 0xDFFF) then Some v else None)"
| "utf8_decode [b0, b1, b2, b3] =
     (let v = (b0 - 0xF0) * 262144 + (b1 - 0x80) * 4096 + (b2 - 0x80) * 64 + (b3 - 0x80)
      in if 0x10000 \<le> v \<and> v \<le> 0x10FFFF then Some v else None)"
| "utf8_decode bs = None"

lemma continuation_octets_length:
  "continuation_octets j s = Some (os, r) \<Longrightarrow> length r \<le> length s"
proof (induction j s arbitrary: os r rule: continuation_octets.induct)
  case (2 j p h1 h2 s)
  from "2.prems" obtain b os' where "p = 0x25" "hex_octet h1 h2 = Some b" "0x80 \<le> b" "b < 0xC0"
    and rest: "continuation_octets j s = Some (os', r)"
    by (auto split: if_splits option.splits)
  with "2.IH" have "length r \<le> length s"
    by simp
  then show ?case by simp
qed simp_all

function decodeURIComponent :: "jsstring \<Rightarrow> js_error + jsstring" where
  "decodeURIComponent [] = Inr []"
| "decodeURIComponent (c # cs) =
     (if c \<noteq> 0x25 then then_append [c] (decodeURIComponent cs)
      else (case cs of
              h1 # h2 # rest \<Rightarrow>
                (case hex_octet h1 h2 of
                   None \<Rightarrow> Inl URIError
                 | Some b \<Rightarrow>
                     if b < 0x80 then then_append [of_nat b] (decodeURIComponent rest)
                     else if utf8_length b = 1 \<or> 4 < utf8_length b then Inl URIError
                     else (case continuation_octets (utf8_length b - 1) rest of
                             None \<Rightarrow> Inl URIError
                           | Some (os, rest') \<Rightarrow>
                               (case utf8_decode (b # os) of
                                  None \<Rightarrow> Inl URIError
                                | Some v \<Rightarrow>
                                    then_append (utf16_encode v) (decodeURIComponent rest'))))
            | _ \<Rightarrow> Inl URIError))"
  by pat_completeness auto
termination
  by (relation "measure length") (auto dest: continuation_octets_length)


section \<open>JSON text\<close>

text \<open>
  \<open>JSON.stringify\<close> on the objects the handlers build: an object whose values are
  strings, arrays of strings, or \<open>undefined\<close> (such a property is left out). A string
  is quoted as ECMAScript's \<open>QuoteJSONString\<close> does.
\<close>

datatype json_value = JString jsstring | JStrings "jsstring list" | JUndefined

definition unicode_escape :: "jschar \<Rightarrow> jsstring" where
  "unicode_escape c =
     [0x5C, 0x75, hex_lower (unat c div 4096), hex_lower (unat c div 256 mod 16),
      hex_lower (unat c div 16 mod 16), hex_lower (unat c mod 16)]"

definition json_escape :: "jschar \<Rightarrow> jsstring" where
  "json_escape c =
     (if c = 0x08 then [0x5C, 0x62]
      else if c = 0x09 then [0x5C, 0x74]
      else if c = 0x0A then [0x5C, 0x6E]
      else if c = 0x0C then [0x5C, 0x66]
      else if c = 0x0D then [0x5C, 0x72]
      else if c = 0x22 then [0x5C, 0x22]
      else if c = 0x5C then [0x5C, 0x5C]
      else if unat c < 0x20 then unicode_escape c
      else [c])"

fun json_quote_chars :: "jsstring \<Rightarrow> jsstring" where
  "json_quote_chars [] = []"
| "json_quote_chars (c # cs) =
     (if is_high_surrogate c
        then (case cs of
                [] \<Rightarrow> unicode_escape c
              | k # ks \<Rightarrow>
                  if is_low_surrogate k then c # k # json_quote_chars ks
                  else unicode_escape c @ json_quote_chars cs)
      else if is_low_surrogate c then unicode_escape c @ json_quote_chars cs
      else json_escape c @ json_quote_chars cs)"

definition json_quote :: "jsstring \<Rightarrow> jsstring" where
  "json_quote s = [0x22] @ json_quote_chars s @ [0x22]"

fun join :: "jsstring \<Rightarrow> jsstring list \<Rightarrow> jsstring" where
  "join sep [] = []"
| "join sep [x] = x"
| "join sep (x # y # ys) = x @ sep @ join sep (y # ys)"

fun json_property :: "jsstring \<times> json_value \<Rightarrow> jsstring list" where
  "json_property (k, JString s) = [json_quote k @ js '':'' @ json_quote s]"
| "json_property (k, JStrings xs) =
     [json_quote k @ js '':'' @ js ''['' @ join (js '','') (map json_quote xs) @ js '']'']"
| "json_property (k, JUndefined) = []"

definition JSON_stringify :: "(jsstring \<times> json_value) list \<Rightarrow> jsstring" where
  "JSON_stringify obj = js ''{'' @ join (js '','') (concat (map json_property obj)) @ js ''}''"

definition json_of :: "jsstring option \<Rightarrow> json_value" where
  "json_of v = (case v of None \<Rightarrow> JUndefined | Some s \<Rightarrow> JString s)"

section \<open>Configuration (\<open>src/config/index.js\<close>)\<close>

text \<open>The environment variables the service reads; a variable that is not set is \<open>None\<close>.\<close>

record env =
  NODE_ENV :: "jsstring option"
  GITHUB_CLIENT_ID :: "jsstring option"
  GH_CLIENT_ID :: "jsstring option"
  GITHUB_CLIENT_SECRET :: "jsstring option"
  GH_CLIENT_SECRET :: "jsstring option"
  OAUTH_API_URL :: "jsstring option"
  ADDITIONAL_ORIGINS :: "jsstring option"

record github_config =
  clientId :: "jsstring option"
  clientSecret :: "jsstring option"
  scope :: jsstring

record api_config =
  baseUrl :: jsstring
  callbackPath :: jsstring

record project_config =
  project_name :: jsstring
  frontendUrl :: jsstring

record projects_config =
  create :: project_config
  prompts :: project_config

record security_config =
  stateLength :: nat
  cookieMaxAge :: nat
  tokenValidation :: bool

record config =
  github :: github_config
  api :: api_config
  projects :: projects_config
  allowedOrigins :: "jsstring list"
  security :: security_config

definition isProduction :: "env \<Rightarrow> bool" where
  "isProduction e \<longleftrightarrow> NODE_ENV e = Some (js ''production'')"

definition getConfig :: "env \<Rightarrow> config" where
  "getConfig e =
     (let projects =
            \<lparr>create = \<lparr>project_name = js ''create'',
                       frontendUrl = (if isProduction e then js ''https://create.rbios.net''
                                      else js ''http://localhost:5173'')\<rparr>,
             prompts = \<lparr>project_name = js ''prompts'',
                        frontendUrl = (if isProduction e then js ''https://prompts.rbios.net''
                                       else js ''http://localhost:5174'')\<rparr>\<rparr>;
          origins = filter (\<lambda>s. s \<noteq> [])
            ([frontendUrl (create projects), frontendUrl (prompts projects)] @
             (case ADDITIONAL_ORIGINS e of None \<Rightarrow> [] | Some s \<Rightarrow> split 0x2C s))
      in \<lparr>github = \<lparr>clientId = js_or (GITHUB_CLIENT_ID e) (GH_CLIENT_ID e),
                    clientSecret = js_or (GITHUB_CLIENT_SECRET e) (GH_CLIENT_SECRET e),
                    scope = js ''repo,user''\<rparr>,
          api = \<lparr>baseUrl = template (js_or (OAUTH_API_URL e)
                   (Some (if isProduction e then js ''https://api.rbios.net''
                          else js ''http://localhost:3000''))),
                 callbackPath = js ''/oauth/callback''\<rparr>,
          projects = projects,
          allowedOrigins =
            (if isProduction e then origins
             else origins @ [js ''http://localhost:3000'', js ''http://localhost:3001'',
                             js ''http://localhost:5173'', js ''http://localhost:5174'']),
          security = \<lparr>stateLength = 16, cookieMaxAge = 600, tokenValidation = True\<rparr>\<rparr>)"

record validation =
  valid :: bool
  errors :: "jsstring list"

definition validateConfig :: "env \<Rightarrow> validation" where
  "validateConfig e =
     (let config = getConfig e;
          errors =
            (if \<not> truthy (clientId (github config)) then [js ''Missing GitHub Client ID''] else []) @
            (if \<not> truthy (clientSecret (github config)) then [js ''Missing GitHub Client Secret'']
             else []) @
            (if length (allowedOrigins config) = 0 then [js ''No allowed origins configured'']
             else [])
      in \<lparr>valid = (length errors = 0), errors = errors\<rparr>)"

definition getOAuthCallbackUrl :: "env \<Rightarrow> jsstring option \<Rightarrow> jsstring" where
  "getOAuthCallbackUrl e project =
     (let config = getConfig e
      in if truthy project
         then baseUrl (api config) @ callbackPath (api config) @ js ''?project='' @ template project
         else baseUrl (api config) @ callbackPath (api config))"


section \<open>Objects and their inherited properties\<close>

text \<open>
  \<open>config.projects\<close> and the cookie jar are plain object literals, so a property read
  \<open>obj[key]\<close> that finds no own property goes on to \<open>Object.prototype\<close>. These are its
  property names. Reading one of them gives a function (or, for \<open>__proto__\<close>, the
  prototype object): a truthy value that has no \<open>frontendUrl\<close>.
\<close>

definition Object_prototype :: "jsstring list" where
  "Object_prototype =
     [js ''constructor'', js ''__defineGetter__'', js ''__defineSetter__'', js ''hasOwnProperty'',
      js ''__lookupGetter__'', js ''__lookupSetter__'', js ''isPrototypeOf'',
      js ''propertyIsEnumerable'', js ''toString'', js ''valueOf'', js ''__proto__'',
      js ''toLocaleString'']"

datatype 'a property = Own 'a | Inherited | Missing

text \<open>\<open>config.projects[project]\<close>\<close>

definition projects_get :: "projects_config \<Rightarrow> jsstring \<Rightarrow> project_config property" where
  "projects_get ps k =
     (if k = js ''create'' then Own (create ps)
      else if k = js ''prompts'' then Own (prompts ps)
      else if k \<in> set Object_prototype then Inherited
      else Missing)"

text \<open>
  \<open>obj[key] = v\<close> with a string \<open>v\<close> on an object literal: the key \<open>__proto__\<close> reaches
  the prototype setter, which ignores a value that is not an object; any other key
  becomes an own property.
\<close>

definition set_property :: "(jsstring \<rightharpoonup> jsstring) \<Rightarrow> jsstring \<Rightarrow> jsstring \<Rightarrow> (jsstring \<rightharpoonup> jsstring)" where
  "set_property obj k v = (if k = js ''__proto__'' then obj else obj(k \<mapsto> v))"

section \<open>Requests and responses\<close>

text \<open>
  The Lambda event, as far as the handlers read it. Header and query values are strings.
  \<open>requestContext_http_method\<close> is \<open>event.requestContext?.http?.method\<close>.
\<close>

record event =
  httpMethod :: "jsstring option"
  requestContext_http_method :: "jsstring option"
  headers :: "(jsstring \<rightharpoonup> jsstring) option"
  queryStringParameters :: "(jsstring \<rightharpoonup> jsstring) option"

text \<open>\<open>event.headers?.[k]\<close> and \<open>(event.queryStringParameters || {})[k]\<close>\<close>

definition header :: "event \<Rightarrow> jsstring \<Rightarrow> jsstring option" where
  "header ev k = (case headers ev of None \<Rightarrow> None | Some h \<Rightarrow> h k)"

definition query :: "event \<Rightarrow> jsstring \<Rightarrow> jsstring option" where
  "query ev k = (case queryStringParameters ev of None \<Rightarrow> None | Some q \<Rightarrow> q k)"

text \<open>\<open>event.httpMethod || event.requestContext?.http?.method\<close>\<close>

definition request_method :: "event \<Rightarrow> jsstring option" where
  "request_method ev = js_or (httpMethod ev) (requestContext_http_method ev)"

text \<open>
  The Lambda response. A header whose value is \<open>undefined\<close> is \<open>None\<close>; a response
  without a \<open>cookies\<close> field has \<open>cookies = []\<close>.
\<close>

record response =
  statusCode :: nat
  responseHeaders :: "(jsstring \<times> jsstring option) list"
  cookies :: "jsstring list"
  body :: jsstring

section \<open>Cookie Codec (\<open>src/utils/cookies.js\<close>)\<close>

record cookie_options =
  httpOnly :: bool
  secure :: bool
  sameSite :: "jsstring option"
  maxAge :: "nat option"
  path :: "jsstring option"
  domain :: "jsstring option"

text \<open>A natural number printed by a template literal.\<close>

fun decimal :: "nat \<Rightarrow> jsstring" where
  "decimal n = (if n < 10 then [of_nat (0x30 + n)]
                else decimal (n div 10) @ [of_nat (0x30 + n mod 10)])"

declare decimal.simps [simp del]

definition createCookieHeader :: "jsstring \<Rightarrow> jsstring \<Rightarrow> cookie_options \<Rightarrow> js_error + jsstring" where
  "createCookieHeader cname cvalue options =
     (case encodeURIComponent cvalue of
        Inl e \<Rightarrow> Inl e
      | Inr v \<Rightarrow> Inr
          (cname @ js ''='' @ v @
           (if httpOnly options then js ''; HttpOnly'' else []) @
           (if secure options then js ''; Secure'' else []) @
           (if truthy (sameSite options) then js ''; SameSite='' @ template (sameSite options)
            else []) @
           (case maxAge options of
              None \<Rightarrow> []
            | Some n \<Rightarrow> if n \<noteq> 0 then js ''; Max-Age='' @ decimal n else []) @
           (if truthy (path options) then js ''; Path='' @ template (path options) else []) @
           (if truthy (domain options) then js ''; Domain='' @ template (domain options)
            else [])))"

text \<open>\<open>createCookieHeader(name, value)\<close> with the default \<open>options = {}\<close>.\<close>

definition no_options :: cookie_options where
  "no_options = \<lparr>httpOnly = False, secure = False, sameSite = None, maxAge = None,
                  path = None, domain = None\<rparr>"

text \<open>
  \<open>const [name, value] = cookie.trim().split('=')\<close>: the first two pieces of the split,
  \<open>undefined\<close> where there is none.
\<close>

definition cookie_pair :: "jsstring \<Rightarrow> jsstring option \<times> jsstring option" where
  "cookie_pair cookie =
     (case split 0x3D (trim cookie) of
        [] \<Rightarrow> (None, None)
      | [n] \<Rightarrow> (Some n, None)
      | n # v # rest \<Rightarrow> (Some n, Some v))"

text \<open>
  The body of \<open>forEach\<close> in \<open>parseCookies\<close>, run over the pieces from left to right;
  \<open>decodeURIComponent\<close> may throw, which ends the loop.
\<close>

fun parseCookies_forEach ::
  "jsstring list \<Rightarrow> (jsstring \<rightharpoonup> jsstring) \<Rightarrow> js_error + (jsstring \<rightharpoonup> jsstring)" where
  "parseCookies_forEach [] jar = Inr jar"
| "parseCookies_forEach (cookie # rest) jar =
     (case cookie_pair cookie of
        (n, v) \<Rightarrow>
          if truthy n \<and> truthy v
          then (case decodeURIComponent (template v) of
                  Inl e \<Rightarrow> Inl e
                | Inr d \<Rightarrow> parseCookies_forEach rest (set_property jar (template n) d))
          else parseCookies_forEach rest jar)"

definition cookieHeader :: "event \<Rightarrow> jsstring" where
  "cookieHeader ev = template (js_or (js_or (header ev (js ''cookie'')) (header ev (js ''Cookie''))) (Some []))"

text \<open>\<open>parseCookies\<close> from the header string on: \<open>cookieHeader.split(';').forEach(...)\<close>.\<close>

definition parseCookieHeader :: "jsstring \<Rightarrow> js_error + (jsstring \<rightharpoonup> jsstring)" where
  "parseCookieHeader h = parseCookies_forEach (split 0x3B h) Map.empty"

definition parseCookies :: "event \<Rightarrow> js_error + (jsstring \<rightharpoonup> jsstring)" where
  "parseCookies ev = parseCookieHeader (cookieHeader ev)"

text \<open>\<open>cookies.oauth_state || null\<close>; \<open>null\<close> is \<open>None\<close>.\<close>

definition extractStateFromCookies :: "event \<Rightarrow> js_error + jsstring option" where
  "extractStateFromCookies ev =
     (case parseCookies ev of
        Inl e \<Rightarrow> Inl e
      | Inr jar \<Rightarrow> Inr (js_or (jar (js ''oauth_state'')) None))"

definition getCookieOptions :: "jsstring option \<Rightarrow> cookie_options" where
  "getCookieOptions environment =
     \<lparr>httpOnly = True,
      secure = (environment = Some (js ''production'')),
      sameSite = Some (js ''Lax''),
      maxAge = Some 600,
      path = Some (js ''/''),
      domain = None\<rparr>"

section \<open>Origin Resolver and CORS (\<open>src/utils/cors.js\<close>)\<close>

definition getCorsHeaders :: "env \<Rightarrow> event \<Rightarrow> (jsstring \<times> jsstring option) list" where
  "getCorsHeaders e ev =
     (let config = getConfig e;
          origin = template (js_or (js_or (header ev (js ''origin'')) (header ev (js ''Origin'')))
                     (Some []));
          isAllowedOrigin = (origin \<in> set (allowedOrigins config));
          corsOrigin = (if isAllowedOrigin then Some origin
                        else (case allowedOrigins config of [] \<Rightarrow> None | x # xs \<Rightarrow> Some x))
      in [(js ''Access-Control-Allow-Origin'', corsOrigin),
          (js ''Access-Control-Allow-Headers'', Some (js ''Content-Type, Authorization'')),
          (js ''Access-Control-Allow-Methods'', Some (js ''GET, POST, OPTIONS'')),
          (js ''Access-Control-Allow-Credentials'', Some (js ''true''))])"

definition handlePreflight :: "(jsstring \<times> jsstring option) list \<Rightarrow> response" where
  "handlePreflight hs =
     \<lparr>statusCode = 200, responseHeaders = hs, cookies = [],
      body = JSON_stringify [(js ''message'', JString (js ''OK''))]\<rparr>"

definition isValidOrigin :: "env \<Rightarrow> jsstring \<Rightarrow> bool" where
  "isValidOrigin e origin \<longleftrightarrow> origin \<in> set (allowedOrigins (getConfig e))"

text \<open>
  \<open>getFrontendOrigin\<close>: \<open>!projectConfig\<close> holds only when the read found nothing, own
  or inherited; an inherited value is truthy and its \<open>frontendUrl\<close> is \<open>undefined\<close>.
\<close>

definition getFrontendOrigin :: "env \<Rightarrow> jsstring \<Rightarrow> jsstring option" where
  "getFrontendOrigin e project =
     (let config = getConfig e
      in case projects_get (projects config) project of
           Missing \<Rightarrow> Some (frontendUrl (create (projects config)))
         | Own projectConfig \<Rightarrow> Some (frontendUrl projectConfig)
         | Inherited \<Rightarrow> None)"


section \<open>Login Initiator (\<open>src/handlers/oauth-login.js\<close>)\<close>

text \<open>\<open>Buffer.toString('hex')\<close>: two lower-case digits for each byte.\<close>

definition hex_string :: "8 word list \<Rightarrow> jsstring" where
  "hex_string bytes = concat (map (\<lambda>b. [hex_lower (unat b div 16), hex_lower (unat b mod 16)]) bytes)"

text \<open>
  The query string that \<open>URLSearchParams\<close> writes: a value is read as code points (a
  surrogate outside a pair becomes U+FFFD), encoded in UTF-8, and each octet is kept if
  it is a letter, a digit or one of \<open>*-._\<close>, written \<open>+\<close> if it is a space, and
  percent-escaped otherwise.
\<close>

fun code_points :: "jsstring \<Rightarrow> nat list" where
  "code_points [] = []"
| "code_points (c # cs) =
     (if is_high_surrogate c
        then (case cs of
                [] \<Rightarrow> [0xFFFD]
              | k # ks \<Rightarrow>
                  if is_low_surrogate k
                  then ((unat c - 0xD800) * 0x400 + (unat k - 0xDC00) + 0x10000) # code_points ks
                  else 0xFFFD # code_points cs)
      else if is_low_surrogate c then 0xFFFD # code_points cs
      else unat c # code_points cs)"

definition form_octet :: "nat \<Rightarrow> jsstring" where
  "form_octet b =
     (if b = 0x20 then [0x2B]
      else if b \<in> {0x2A, 0x2D, 0x2E, 0x5F} \<or> (0x30 \<le> b \<and> b \<le> 0x39) \<or> (0x41 \<le> b \<and> b \<le> 0x5A)
              \<or> (0x61 \<le> b \<and> b \<le> 0x7A)
        then [of_nat b]
      else percent_encode [b])"

definition urlencoded :: "jsstring \<Rightarrow> jsstring" where
  "urlencoded s = concat (map form_octet (concat (map utf8_encode (code_points s))))"

text \<open>
  The state token of a login: \<open>`${state}:${project}`\<close>, where \<open>state\<close> is the hex string
  of the random bytes. \<open>randomBytes\<close> stands for \<open>crypto.randomBytes\<close>.
\<close>

definition stateWithProject :: "env \<Rightarrow> (nat \<Rightarrow> 8 word list) \<Rightarrow> jsstring \<Rightarrow> jsstring" where
  "stateWithProject e randomBytes project =
     hex_string (randomBytes (stateLength (security (getConfig e)))) @ js '':'' @ project"

text \<open>\<open>const { project = 'create' } = event.queryStringParameters || {}\<close>\<close>

definition requested_project :: "event \<Rightarrow> jsstring" where
  "requested_project ev = (case query ev (js ''project'') of None \<Rightarrow> js ''create'' | Some p \<Rightarrow> p)"

definition githubAuthUrl :: "env \<Rightarrow> jsstring \<Rightarrow> jsstring" where
  "githubAuthUrl e st =
     js ''https://github.com/login/oauth/authorize'' @
     js ''?client_id='' @ urlencoded (template (clientId (github (getConfig e)))) @
     js ''&redirect_uri='' @ urlencoded (getOAuthCallbackUrl e None) @
     js ''&scope='' @ urlencoded (scope (github (getConfig e))) @
     js ''&state='' @ urlencoded st"

text \<open>The message of a caught exception.\<close>

fun message :: "js_error \<Rightarrow> jsstring" where
  "message URIError = js ''URI malformed''"
| "message (Failure m) = m"

definition login_handler :: "env \<Rightarrow> (nat \<Rightarrow> 8 word list) \<Rightarrow> event \<Rightarrow> response" where
  "login_handler e randomBytes ev =
     (let configValidation = validateConfig e
      in if \<not> valid configValidation
         then \<lparr>statusCode = 500,
               responseHeaders = [(js ''Content-Type'', Some (js ''application/json''))],
               cookies = [],
               body = JSON_stringify [(js ''error'', JString (js ''Server configuration error'')),
                                      (js ''details'', JStrings (errors configValidation))]\<rparr>
         else
           let corsHeaders = getCorsHeaders e ev;
               meth = request_method ev
           in if meth = Some (js ''OPTIONS'') then handlePreflight corsHeaders
              else if meth \<noteq> Some (js ''GET'')
              then \<lparr>statusCode = 405,
                    responseHeaders = corsHeaders @ [(js ''Content-Type'', Some (js ''application/json''))],
                    cookies = [],
                    body = JSON_stringify [(js ''error'', JString (js ''Method not allowed''))]\<rparr>
              else
                let project = requested_project ev;
                    st = stateWithProject e randomBytes project;
                    cookieOptions = getCookieOptions (NODE_ENV e)
                in case createCookieHeader (js ''oauth_state'') st cookieOptions of
                     Inl err \<Rightarrow>
                       \<lparr>statusCode = 500,
                        responseHeaders = corsHeaders @ [(js ''Content-Type'', Some (js ''application/json''))],
                        cookies = [],
                        body = JSON_stringify [(js ''error'', JString (js ''Internal server error'')),
                                               (js ''message'', JString (message err))]\<rparr>
                   | Inr stateCookie \<Rightarrow>
                       \<lparr>statusCode = 302,
                        responseHeaders = corsHeaders @ [(js ''Location'', Some (githubAuthUrl e st))],
                        cookies = [stateCookie],
                        body = []\<rparr>)"

section \<open>Callback Processor (\<open>src/handlers/oauth-callback.js\<close>)\<close>

text \<open>
  The two documents. Each template literal is cut where a value is put in; the text
  before and after the cut has a name of its own.
\<close>

definition postMessage_html_before :: jsstring where
  \<open>postMessage_html_before = js
    (''\<newline>'' @
     ''    <!DOCTYPE html>\<newline>'' @
     ''    <html>\<newline>'' @
     ''    <head>\<newline>'' @
     ''      <title>OAuth Success</title>\<newline>'' @
     ''      <style>\<newline>'' @
     ''        body {\<newline>'' @
     ''          font-family: -apple-system, BlinkMacSystemFont, 'Segoe UI', Roboto, sans-serif;\<newline>'' @
     ''          display: flex;\<newline>'' @
     ''          align-items: center;\<newline>'' @
     ''          justify-content: center;\<newline>'' @
     ''          height: 100vh;\<newline>'' @
     ''          margin: 0;\<newline>'' @
     ''          background: linear-gradient(135deg, #667eea 0%, #764ba2 100%);\<newline>'' @
     ''        }\<newline>'' @
     ''        .container {\<newline>'' @
     ''          text-align: center;\<newline>'' @
     ''          background: white;\<newline>'' @
     ''          padding: 2rem;\<newline>'' @
     ''          border-radius: 10px;\<newline>'' @
     ''          box-shadow: 0 20px 60px rgba(0,0,0,0.1);\<newline>'' @
     ''        }\<newline>'' @
     ''        .success-icon {\<newline>'' @
     ''          width: 60px;\<newline>'' @
     ''          height: 60px;\<newline>'' @
     ''          margin: 0 auto 1rem;\<newline>'' @
     ''          fill: #10b981;\<newline>'' @
     ''        }\<newline>'' @
     ''        h1 {\<newline>'' @
     ''          color: #1f2937;\<newline>'' @
     ''          margin: 0 0 0.5rem;\<newline>'' @
     ''        }\<newline>'' @
     ''        p {\<newline>'' @
     ''          color: #6b7280;\<newline>'' @
     ''          margin: 0;\<newline>'' @
     ''        }\<newline>'' @
     ''      </style>\<newline>'' @
     ''    </head>\<newline>'' @
     ''    <body>\<newline>'' @
     ''      <div class="container">\<newline>'' @
     ''        <svg class="success-icon" viewBox="0 0 24 24">\<newline>'' @
     ''          <path d="M9 11l3 3L22 4" stroke="currentColor" stroke-width="2" fill="none" stroke-linecap="round" stroke-linejoin="round"/>\<newline>'' @
     ''          <path d="M21 12v7a2 2 0 01-2 2H5a2 2 0 01-2-2V5a2 2 0 012-2h11" stroke="currentColor" stroke-width="2" fill="none" stroke-linecap="round" stroke-linejoin="round"/>\<newline>'' @
     ''        </svg>\<newline>'' @
     ''        <h1>Authentication Successful!</h1>\<newline>'' @
     ''        <p>You can now close this window.</p>\<newline>'' @
     ''      </div>\<newline>'' @
     ''      <script>\<newline>'' @
     ''        // Post the access token to the parent window\<newline>'' @
     ''        if (window.opener) {\<newline>'')\<close>

definition postMessage_html_after :: jsstring where
  \<open>postMessage_html_after = js
    (''        }\<newline>'' @
     ''        \<newline>'' @
     ''        // Auto-close after a short delay\<newline>'' @
     ''        setTimeout(() => {\<newline>'' @
     ''          window.close();\<newline>'' @
     ''        }, 2000);\<newline>'' @
     ''      </script>\<newline>'' @
     ''    </body>\<newline>'' @
     ''    </html>\<newline>'' @
     ''  '')\<close>

definition generatePostMessageHTML :: "jsstring \<Rightarrow> jsstring option \<Rightarrow> jsstring" where
  \<open>generatePostMessageHTML accessToken frontendOrigin =
     postMessage_html_before @
     js (''          window.opener.postMessage({\<newline>'' @
        ''            source: 'oauth',\<newline>'' @
        ''            access_token: '' @
        [CHR 0x27]) @
     accessToken @
     js ([CHR 0x27] @
        ''\<newline>'' @
        ''          }, '' @
        [CHR 0x27]) @
     template frontendOrigin @
     js ([CHR 0x27] @
        '');\<newline>'') @
     postMessage_html_after\<close>

definition error_html_before :: jsstring where
  \<open>error_html_before = js
    (''\<newline>'' @
     ''    <!DOCTYPE html>\<newline>'' @
     ''    <html>\<newline>'' @
     ''    <head>\<newline>'' @
     ''      <title>OAuth Error</title>\<newline>'' @
     ''      <style>\<newline>'' @
     ''        body {\<newline>'' @
     ''          font-family: -apple-system, BlinkMacSystemFont, 'Segoe UI', Roboto, sans-serif;\<newline>'' @
     ''          display: flex;\<newline>'' @
     ''          align-items: center;\<newline>'' @
     ''          justify-content: center;\<newline>'' @
     ''          height: 100vh;\<newline>'' @
     ''          margin: 0;\<newline>'' @
     ''          background: #f3f4f6;\<newline>'' @
     ''        }\<newline>'' @
     ''        .container {\<newline>'' @
     ''          text-align: center;\<newline>'' @
     ''          background: white;\<newline>'' @
     ''          padding: 2rem;\<newline>'' @
     ''          border-radius: 10px;\<newline>'' @
     ''          box-shadow: 0 10px 40px rgba(0,0,0,0.1);\<newline>'' @
     ''        }\<newline>'' @
     ''        .error-icon {\<newline>'' @
     ''          width: 60px;\<newline>'' @
     ''          height: 60px;\<newline>'' @
     ''          margin: 0 auto 1rem;\<newline>'' @
     ''          fill: #ef4444;\<newline>'' @
     ''        }\<newline>'' @
     ''        h1 {\<newline>'' @
     ''          color: #1f2937;\<newline>'' @
     ''          margin: 0 0 0.5rem;\<newline>'' @
     ''        }\<newline>'' @
     ''        p {\<newline>'' @
     ''          color: #6b7280;\<newline>'' @
     ''          margin: 0 0 1rem;\<newline>'' @
     ''        }\<newline>'' @
     ''        button {\<newline>'' @
     ''          background: #3b82f6;\<newline>'' @
     ''          color: white;\<newline>'' @
     ''          border: none;\<newline>'' @
     ''          padding: 0.75rem 1.5rem;\<newline>'' @
     ''          border-radius: 6px;\<newline>'' @
     ''          font-size: 1rem;\<newline>'' @
     ''          cursor: pointer;\<newline>'' @
     ''        }\<newline>'' @
     ''        button:hover {\<newline>'' @
     ''          background: #2563eb;\<newline>'' @
     ''        }\<newline>'' @
     ''      </style>\<newline>'' @
     ''    </head>\<newline>'' @
     ''    <body>\<newline>'' @
     ''      <div class="container">\<newline>'' @
     ''        <svg class="error-icon" viewBox="0 0 24 24">\<newline>'' @
     ''          <circle cx="12" cy="12" r="10" stroke="currentColor" stroke-width="2" fill="none"/>\<newline>'' @
     ''          <path d="M12 8v4m0 4h.01" stroke="currentColor" stroke-width="2" stroke-linecap="round" stroke-linejoin="round"/>\<newline>'' @
     ''        </svg>\<newline>'' @
     ''        <h1>Authentication Failed</h1>\<newline>'')\<close>

definition error_html_after :: jsstring where
  \<open>error_html_after = js
    (''        <button onclick="window.close()">Close Window</button>\<newline>'' @
     ''      </div>\<newline>'' @
     ''    </body>\<newline>'' @
     ''    </html>\<newline>'' @
     ''  '')\<close>

definition generateErrorHTML :: "jsstring \<Rightarrow> jsstring" where
  \<open>generateErrorHTML err =
     error_html_before @ js ''        <p>'' @ err @ js ''</p>\<newline>'' @ error_html_after\<close>


text \<open>
  The outbound call. \<open>fetch\<close> followed by \<open>response.json()\<close> either throws (the network
  fails, the body is not JSON, or it is \<open>null\<close>) or gives the fields of the provider's
  answer, which are strings where present.
\<close>

record fetch_request =
  url :: jsstring
  requestMethod :: jsstring
  requestHeaders :: "(jsstring \<times> jsstring) list"
  requestBody :: jsstring

record token_data =
  error :: "jsstring option"
  error_description :: "jsstring option"
  access_token :: "jsstring option"

definition error_page :: "nat \<Rightarrow> (jsstring \<times> jsstring option) list \<Rightarrow> jsstring \<Rightarrow> response" where
  "error_page status corsHeaders msg =
     \<lparr>statusCode = status,
      responseHeaders = corsHeaders @ [(js ''Content-Type'', Some (js ''text/html''))],
      cookies = [],
      body = generateErrorHTML msg\<rparr>"

text \<open>\<open>const [, project = 'create'] = state.split(':')\<close>\<close>

definition project_of_state :: "jsstring \<Rightarrow> jsstring" where
  "project_of_state st = (case split 0x3A st of a # project # rest \<Rightarrow> project | _ \<Rightarrow> js ''create'')"

definition token_request :: "env \<Rightarrow> jsstring \<Rightarrow> fetch_request" where
  "token_request e code =
     (let config = getConfig e
      in \<lparr>url = js ''https://github.com/login/oauth/access_token'',
          requestMethod = js ''POST'',
          requestHeaders = [(js ''Content-Type'', js ''application/json''),
                            (js ''Accept'', js ''application/json'')],
          requestBody = JSON_stringify
            [(js ''client_id'', json_of (clientId (github config))),
             (js ''client_secret'', json_of (clientSecret (github config))),
             (js ''code'', JString code),
             (js ''redirect_uri'', JString (baseUrl (api config) @ callbackPath (api config)))]\<rparr>)"

text \<open>
  The handler returns its response together with the outbound requests it has made,
  in order.
\<close>

definition callback_handler ::
  "env \<Rightarrow> (fetch_request \<Rightarrow> js_error + token_data) \<Rightarrow> event \<Rightarrow> response \<times> fetch_request list" where
  "callback_handler e fetch ev =
     (let configValidation = validateConfig e
      in if \<not> valid configValidation
         then (\<lparr>statusCode = 500,
                responseHeaders = [(js ''Content-Type'', Some (js ''text/html''))],
                cookies = [],
                body = generateErrorHTML (js ''Server configuration error'')\<rparr>, [])
         else
           let corsHeaders = getCorsHeaders e ev;
               code = query ev (js ''code'');
               st = query ev (js ''state'');
               err = query ev (js ''error'')
           in if truthy err
              then (error_page 400 corsHeaders (js ''GitHub error: '' @ template err), [])
              else if \<not> truthy code \<or> \<not> truthy st
              then (error_page 400 corsHeaders (js ''Missing authorization code or state''), [])
              else
                (case extractStateFromCookies ev of
                   Inl thrown \<Rightarrow> (error_page 500 corsHeaders (js ''Internal server error''), [])
                 | Inr storedState \<Rightarrow>
                     if \<not> truthy storedState \<or> storedState \<noteq> st
                     then (error_page 400 corsHeaders
                             (js ''Invalid state parameter - possible CSRF attack''), [])
                     else
                       let project = project_of_state (template st);
                           frontendOrigin = getFrontendOrigin e project;
                           request = token_request e (template code)
                       in (case fetch request of
                             Inl thrown \<Rightarrow>
                               (error_page 500 corsHeaders (js ''Internal server error''), [request])
                           | Inr tokenData \<Rightarrow>
                               if truthy (error tokenData)
                               then (error_page 400 corsHeaders
                                       (js ''Failed to obtain access token: '' @
                                        template (js_or (error_description tokenData) (error tokenData))),
                                     [request])
                               else if \<not> truthy (access_token tokenData)
                               then (error_page 400 corsHeaders
                                       (js ''No access token received from GitHub''), [request])
                               else
                                 (\<lparr>statusCode = 200,
                                   responseHeaders = corsHeaders @
                                     [(js ''Content-Type'', Some (js ''text/html'')),
                                      (js ''Cache-Control'',
                                       Some (js ''no-store, no-cache, must-revalidate''))],
                                   cookies = [],
                                   body = generatePostMessageHTML
                                            (template (access_token tokenData)) frontendOrigin\<rparr>,
                                  [request]))))"


section \<open>The Cookie Codec's decoder in the words of the specification\<close>

text \<open>
  The specification's decoder, to compare \<open>parseCookies\<close> with: split the header on
  \<open>;\<close>, trim each piece, split the piece at its first \<open>=\<close> into a name and a value,
  percent-decode the value, and bind the name to it, a later piece replacing an earlier
  one of the same name. A piece with no \<open>=\<close>, with an empty name or with an empty
  value binds nothing. A value that is not valid percent-encoding makes the decoder fail.
\<close>

definition split_first :: "jschar \<Rightarrow> jsstring \<Rightarrow> jsstring \<times> jsstring option" where
  "split_first sep s =
     (takeWhile (\<lambda>c. c \<noteq> sep) s,
      case dropWhile (\<lambda>c. c \<noteq> sep) s of [] \<Rightarrow> None | c # r \<Rightarrow> Some r)"

fun spec_decode_pairs ::
  "jsstring list \<Rightarrow> (jsstring \<rightharpoonup> jsstring) \<Rightarrow> js_error + (jsstring \<rightharpoonup> jsstring)" where
  "spec_decode_pairs [] m = Inr m"
| "spec_decode_pairs (piece # rest) m =
     (case split_first 0x3D (trim piece) of
        (n, None) \<Rightarrow> spec_decode_pairs rest m
      | (n, Some v) \<Rightarrow>
          if n \<noteq> [] \<and> v \<noteq> []
          then (case decodeURIComponent v of
                  Inl e \<Rightarrow> Inl e
                | Inr d \<Rightarrow> spec_decode_pairs rest (m(n \<mapsto> d)))
          else spec_decode_pairs rest m)"

definition spec_cookie_decoder :: "jsstring \<Rightarrow> js_error + (jsstring \<rightharpoonup> jsstring)" where
  "spec_cookie_decoder h = spec_decode_pairs (split 0x3B h) Map.empty"

text \<open>The number of \<open>=\<close> in a piece, and the characters that need no care in a cookie.\<close>

definition equals_signs :: "jsstring \<Rightarrow> nat" where
  "equals_signs s = length (filter (\<lambda>c. c = 0x3D) s)"

definition cookie_safe :: "jschar \<Rightarrow> bool" where
  "cookie_safe c \<longleftrightarrow> c \<noteq> 0x3D \<and> c \<noteq> 0x3B \<and> \<not> is_white_space c"

section \<open>Sample environments and requests\<close>

text \<open>
  A development environment and a production environment with both credentials set, an
  environment with nothing set,
  and the event that the local server builds from a request (\<open>expressToLambdaEvent\<close>:
  both method fields hold the request's method).
\<close>

definition dev_env :: env where
  "dev_env = \<lparr>NODE_ENV = None, GITHUB_CLIENT_ID = Some (js ''Iv1.0a1b2c''), GH_CLIENT_ID = None,
     GITHUB_CLIENT_SECRET = Some (js ''s3cr3t''), GH_CLIENT_SECRET = None, OAUTH_API_URL = None,
     ADDITIONAL_ORIGINS = None\<rparr>"

definition prod_env :: env where
  "prod_env = \<lparr>NODE_ENV = Some (js ''production''), GITHUB_CLIENT_ID = None,
     GH_CLIENT_ID = Some (js ''Iv1.0a1b2c''), GITHUB_CLIENT_SECRET = None,
     GH_CLIENT_SECRET = Some (js ''s3cr3t''), OAUTH_API_URL = None, ADDITIONAL_ORIGINS = None\<rparr>"

definition empty_env :: env where
  "empty_env = \<lparr>NODE_ENV = None, GITHUB_CLIENT_ID = None, GH_CLIENT_ID = None,
     GITHUB_CLIENT_SECRET = None, GH_CLIENT_SECRET = None, OAUTH_API_URL = None,
     ADDITIONAL_ORIGINS = None\<rparr>"

definition request :: "string \<Rightarrow> (string \<times> string) list \<Rightarrow> (string \<times> string) list \<Rightarrow> event" where
  "request m hs qs =
     \<lparr>httpMethod = Some (js m), requestContext_http_method = Some (js m),
      headers = Some (map_of (map (\<lambda>(k, v). (js k, js v)) hs)),
      queryStringParameters = Some (map_of (map (\<lambda>(k, v). (js k, js v)) qs))\<rparr>"

text \<open>A provider that answers every exchange with the given fields, and one that fails.\<close>

definition provider_answers :: "token_data \<Rightarrow> fetch_request \<Rightarrow> js_error + token_data" where
  "provider_answers d r = Inr d"

definition provider_fails :: "fetch_request \<Rightarrow> js_error + token_data" where
  "provider_fails r = Inl (Failure (js ''fetch failed''))"

text \<open>
  A callback whose state names the project \<open>constructor\<close>, as a login with
  \<open>?project=constructor\<close> issues it, and a provider answer that holds a token.
\<close>

definition inherited_key_request :: event where
  "inherited_key_request =
     request ''GET'' [(''cookie'', ''oauth_state=5b1e%3Aconstructor'')]
       [(''code'', ''c0de''), (''state'', ''5b1e:constructor'')]"

definition token_answer :: token_data where
  "token_answer = \<lparr>error = None, error_description = None, access_token = Some (js ''tok123'')\<rparr>"

text \<open>\<open>crypto.randomBytes\<close> standing still: every byte is \<open>0xAB\<close>.\<close>

definition fixed_bytes :: "nat \<Rightarrow> 8 word list" where
  "fixed_bytes n = replicate n 0xAB"


section \<open>Facts about strings and percent-encoding\<close>

lemma unat_of_char16: "unat (of_char c :: jschar) = of_char c"
proof -
  have "of_char c = (of_nat (of_char c) :: jschar)"
    by (simp add: of_nat_of_char)
  moreover have "(of_char c :: nat) < 65536"
    by (rule less_trans [OF nat_of_char_less_256]) simp
  ultimately show ?thesis
    by (simp add: unat_of_nat del: of_nat_of_char)
qed

lemma inj_js_char: "inj (of_char :: char \<Rightarrow> jschar)"
proof (rule injI)
  fix c d :: char
  assume "(of_char c :: jschar) = of_char d"
  then have "unat (of_char c :: jschar) = unat (of_char d :: jschar)" by simp
  then show "c = d" by (simp add: unat_of_char16)
qed

lemma js_append: "js (a @ b) = js a @ js b"
  by (simp add: js_def)

lemma js_mem: "of_char c \<in> set (js s) \<longleftrightarrow> c \<in> set s"
  using inj_js_char by (auto simp: js_def inj_def)

lemma unat_of_nat16: "n < 65536 \<Longrightarrow> unat (of_nat n :: jschar) = n"
  by (simp add: unat_of_nat)

lemma hex_value_hex_upper:
  assumes "d < 16"
  shows "hex_value (hex_upper d) = Some d"
proof -
  have a: "unat (of_nat (0x30 + d) :: jschar) = 0x30 + d"
    using assms by (intro unat_of_nat16) simp
  have b: "unat (of_nat (0x37 + d) :: jschar) = 0x37 + d"
    using assms by (intro unat_of_nat16) simp
  show ?thesis
    using assms by (simp add: hex_value_def hex_upper_def a b del: of_nat_add of_nat_numeral)
qed

lemma hex_octet_hex_upper:
  assumes "b < 256"
  shows "hex_octet (hex_upper (b div 16)) (hex_upper (b mod 16)) = Some b"
proof -
  from assms have "b div 16 < 16" by simp
  then show ?thesis
    by (simp add: hex_octet_def hex_value_hex_upper)
qed

lemma then_append_Inr_iff:
  "then_append p r = Inr x \<longleftrightarrow> (\<exists>s. r = Inr s \<and> x = p @ s)"
  by (cases r) (auto simp: then_append_def)

lemma continuation_octets_pct:
  assumes "b < 256" "0x80 \<le> b" "b < 0xC0" "continuation_octets j s = Some (os, r)"
  shows "continuation_octets (Suc j) (0x25 # hex_upper (b div 16) # hex_upper (b mod 16) # s) =
    Some (b # os, r)"
  using assms by (simp add: hex_octet_hex_upper)

lemma decode_lead:
  assumes "b < 256" "0xC0 \<le> b" "b < 0xF8"
    and "continuation_octets (utf8_length b - 1) t = Some (os, r)"
    and "utf8_decode (b # os) = Some v"
  shows "decodeURIComponent (0x25 # hex_upper (b div 16) # hex_upper (b mod 16) # t) =
    then_append (utf16_encode v) (decodeURIComponent r)"
proof -
  have "\<not> b < 0x80" "\<not> (utf8_length b = 1 \<or> 4 < utf8_length b)"
    using assms(2,3) by (simp_all add: utf8_length_def)
  then show ?thesis
    using assms(4,5) by (simp add: hex_octet_hex_upper [OF assms(1)])
qed

lemma utf8_three_octets:
  "(v div 4096) * 4096 + ((v div 64) mod 64) * 64 + v mod 64 = (v :: nat)"
proof -
  define d q r m where "d = v div 64" and "q = d div 64" and "r = d mod 64" and "m = v mod 64"
  have "v = d * 64 + m" "d = q * 64 + r"
    by (simp_all add: d_def q_def r_def m_def)
  moreover have "v div 4096 = q"
    by (simp add: d_def q_def div_mult2_eq)
  ultimately show ?thesis
    unfolding d_def [symmetric] r_def [symmetric] m_def [symmetric] by linarith
qed

lemma utf8_four_octets:
  "(v div 262144) * 262144 + ((v div 4096) mod 64) * 4096 + ((v div 64) mod 64) * 64
     + v mod 64 = (v :: nat)"
proof -
  define d q r where "d = v div 4096" and "q = d div 64" and "r = d mod 64"
  have "d = q * 64 + r"
    by (simp add: q_def r_def)
  moreover have "v div 262144 = q"
    by (simp add: d_def q_def div_mult2_eq)
  moreover note utf8_three_octets [of v]
  ultimately show ?thesis
    unfolding d_def [symmetric] r_def [symmetric] by linarith
qed

lemma unat_jschar_less: "unat (c :: jschar) < 65536"
proof -
  have "unat c < 2 ^ LENGTH(16)" by (rule unsigned_less)
  then show ?thesis by simp
qed

lemma decode_percent_utf8:
  assumes "v < 0x110000" "\<not> (0xD800 \<le> v \<and> v \<le> 0xDFFF)"
  shows "decodeURIComponent (percent_encode (utf8_encode v) @ s) =
    then_append (utf16_encode v) (decodeURIComponent s)"
proof -
  consider "v < 0x80" | "0x80 \<le> v" "v < 0x800" | "0x800 \<le> v" "v < 0x10000"
    | "0x10000 \<le> v"
    by linarith
  then show ?thesis
  proof cases
    case 1
    then show ?thesis
      by (simp add: utf8_encode_def percent_encode_def hex_octet_hex_upper utf16_encode_def)
  next
    case 2
    define b0 where "b0 = 0xC0 + v div 64"
    define b1 where "b1 = 0x80 + v mod 64"
    have e: "percent_encode (utf8_encode v) @ s =
      0x25 # hex_upper (b0 div 16) # hex_upper (b0 mod 16) #
      0x25 # hex_upper (b1 div 16) # hex_upper (b1 mod 16) # s"
      using 2 by (simp add: utf8_encode_def percent_encode_def b0_def b1_def)
    have b0: "b0 < 256" "0xC0 \<le> b0" "b0 < 0xF8" "utf8_length b0 - 1 = Suc 0"
      using 2 by (simp_all add: b0_def utf8_length_def)
    have b1: "b1 < 256" "0x80 \<le> b1" "b1 < 0xC0"
      by (simp_all add: b1_def)
    have c: "continuation_octets (utf8_length b0 - 1)
        (0x25 # hex_upper (b1 div 16) # hex_upper (b1 mod 16) # s) = Some ([b1], s)"
      unfolding b0(4) by (rule continuation_octets_pct [OF b1]) simp
    have d: "utf8_decode [b0, b1] = Some v"
      using 2 by (simp add: b0_def b1_def)
    show ?thesis
      unfolding e by (rule decode_lead [OF b0(1-3) c d])
  next
    case 3
    define b0 where "b0 = 0xE0 + v div 4096"
    define b1 where "b1 = 0x80 + (v div 64) mod 64"
    define b2 where "b2 = 0x80 + v mod 64"
    have e: "percent_encode (utf8_encode v) @ s =
      0x25 # hex_upper (b0 div 16) # hex_upper (b0 mod 16) #
      0x25 # hex_upper (b1 div 16) # hex_upper (b1 mod 16) #
      0x25 # hex_upper (b2 div 16) # hex_upper (b2 mod 16) # s"
      using 3 by (simp add: utf8_encode_def percent_encode_def b0_def b1_def b2_def)
    have b0: "b0 < 256" "0xC0 \<le> b0" "b0 < 0xF8" "utf8_length b0 - 1 = Suc (Suc 0)"
      using 3 by (simp_all add: b0_def utf8_length_def)
    have b1: "b1 < 256" "0x80 \<le> b1" "b1 < 0xC0"
      by (simp_all add: b1_def)
    have b2: "b2 < 256" "0x80 \<le> b2" "b2 < 0xC0"
      by (simp_all add: b2_def)
    have c: "continuation_octets (utf8_length b0 - 1)
        (0x25 # hex_upper (b1 div 16) # hex_upper (b1 mod 16) #
         0x25 # hex_upper (b2 div 16) # hex_upper (b2 mod 16) # s) = Some ([b1, b2], s)"
      unfolding b0(4)
      by (rule continuation_octets_pct [OF b1], rule continuation_octets_pct [OF b2]) simp
    have "(v div 4096) * 4096 + ((v div 64) mod 64) * 64 + v mod 64 = v"
      by (rule utf8_three_octets)
    then have d: "utf8_decode [b0, b1, b2] = Some v"
      using 3 assms(2) by (simp add: b0_def b1_def b2_def)
    show ?thesis
      unfolding e by (rule decode_lead [OF b0(1-3) c d])
  next
    case 4
    define b0 where "b0 = 0xF0 + v div 262144"
    define b1 where "b1 = 0x80 + (v div 4096) mod 64"
    define b2 where "b2 = 0x80 + (v div 64) mod 64"
    define b3 where "b3 = 0x80 + v mod 64"
    have e: "percent_encode (utf8_encode v) @ s =
      0x25 # hex_upper (b0 div 16) # hex_upper (b0 mod 16) #
      0x25 # hex_upper (b1 div 16) # hex_upper (b1 mod 16) #
      0x25 # hex_upper (b2 div 16) # hex_upper (b2 mod 16) #
      0x25 # hex_upper (b3 div 16) # hex_upper (b3 mod 16) # s"
      using 4 by (simp add: utf8_encode_def percent_encode_def b0_def b1_def b2_def b3_def)
    have b0: "b0 < 256" "0xC0 \<le> b0" "b0 < 0xF8" "utf8_length b0 - 1 = Suc (Suc (Suc 0))"
      using 4 assms(1) by (simp_all add: b0_def utf8_length_def)
    have b1: "b1 < 256" "0x80 \<le> b1" "b1 < 0xC0"
      by (simp_all add: b1_def)
    have b2: "b2 < 256" "0x80 \<le> b2" "b2 < 0xC0"
      by (simp_all add: b2_def)
    have b3: "b3 < 256" "0x80 \<le> b3" "b3 < 0xC0"
      by (simp_all add: b3_def)
    have c: "continuation_octets (utf8_length b0 - 1)
        (0x25 # hex_upper (b1 div 16) # hex_upper (b1 mod 16) #
         0x25 # hex_upper (b2 div 16) # hex_upper (b2 mod 16) #
         0x25 # hex_upper (b3 div 16) # hex_upper (b3 mod 16) # s) = Some ([b1, b2, b3], s)"
      unfolding b0(4)
      by (rule continuation_octets_pct [OF b1], rule continuation_octets_pct [OF b2],
          rule continuation_octets_pct [OF b3]) simp
    have "(v div 262144) * 262144 + ((v div 4096) mod 64) * 4096 + ((v div 64) mod 64) * 64
        + v mod 64 = v"
      by (rule utf8_four_octets)
    then have d: "utf8_decode [b0, b1, b2, b3] = Some v"
      using 4 assms(1) by (simp add: b0_def b1_def b2_def b3_def)
    show ?thesis
      unfolding e by (rule decode_lead [OF b0(1-3) c d])
  qed
qed

lemma uri_unreserved_not_percent: "uri_unreserved c \<Longrightarrow> c \<noteq> 0x25"
  by (auto simp: uri_unreserved_def is_alnum_def js_def)

lemma utf16_encode_unit: "utf16_encode (unat (c :: jschar)) = [c]"
proof -
  have "unat c < 65536" by (rule unat_jschar_less)
  then show ?thesis by (simp add: utf16_encode_def)
qed

lemma utf16_encode_pair:
  assumes "is_high_surrogate c" "is_low_surrogate k"
  shows "utf16_encode ((unat c - 0xD800) * 0x400 + (unat k - 0xDC00) + 0x10000) = [c, k]"
proof -
  define a where "a = unat c - 0xD800"
  define b where "b = unat k - 0xDC00"
  have b: "b < 1024" and ua: "0xD800 + a = unat c" and ub: "0xDC00 + b = unat k"
    using assms by (auto simp: is_high_surrogate_def is_low_surrogate_def a_def b_def)
  have "(a * 1024 + b) div 1024 = a" "(a * 1024 + b) mod 1024 = b"
    using b by simp_all
  then have "utf16_encode (a * 0x400 + b + 0x10000) = [of_nat (0xD800 + a), of_nat (0xDC00 + b)]"
    by (simp add: utf16_encode_def del: of_nat_add of_nat_numeral)
  then show ?thesis
    unfolding ua ub by (simp add: a_def b_def)
qed

lemma pair_code_point_range:
  assumes "is_high_surrogate c" "is_low_surrogate k"
  shows "(unat c - 0xD800) * 0x400 + (unat k - 0xDC00) + 0x10000 < 0x110000"
    and "\<not> (0xD800 \<le> (unat c - 0xD800) * 0x400 + (unat k - 0xDC00) + 0x10000 \<and>
          (unat c - 0xD800) * 0x400 + (unat k - 0xDC00) + 0x10000 \<le> 0xDFFF)"
  using assms by (auto simp: is_high_surrogate_def is_low_surrogate_def)

lemma decode_encode:
  "encodeURIComponent v = Inr e \<Longrightarrow> decodeURIComponent e = Inr v"
proof (induction v arbitrary: e rule: encodeURIComponent.induct)
  case 1
  then show ?case by simp
next
  case (2 c cs)
  show ?case
  proof (cases "uri_unreserved c")
    case True
    with "2.prems" obtain e' where e': "encodeURIComponent cs = Inr e'" "e = c # e'"
      by (auto simp: then_append_Inr_iff)
    with "2.IH"(1) True have "decodeURIComponent e' = Inr cs" by simp
    with e' True show ?thesis
      by (simp add: uri_unreserved_not_percent then_append_def)
  next
    case False
    note unres = this
    show ?thesis
    proof (cases "is_high_surrogate c")
      case False
      with unres "2.prems" have low: "\<not> is_low_surrogate c"
        by (auto split: if_splits)
      with unres False "2.prems" obtain e' where e': "encodeURIComponent cs = Inr e'"
        "e = percent_encode (utf8_encode (unat c)) @ e'"
        by (auto simp: then_append_Inr_iff)
      with "2.IH"(2) unres low False have d: "decodeURIComponent e' = Inr cs" by simp
      have "unat c < 0x110000" using unat_jschar_less [of c] by simp
      moreover have "\<not> (0xD800 \<le> unat c \<and> unat c \<le> 0xDFFF)"
        using low False by (auto simp: is_high_surrogate_def is_low_surrogate_def)
      ultimately show ?thesis
        unfolding e'(2) by (simp add: decode_percent_utf8 d utf16_encode_unit then_append_def)
    next
      case True
      then have low: "\<not> is_low_surrogate c"
        by (auto simp: is_high_surrogate_def is_low_surrogate_def)
      with unres True "2.prems" obtain k ks e' where cs: "cs = k # ks" and k: "is_low_surrogate k"
        and e': "encodeURIComponent ks = Inr e'"
        "e = percent_encode (utf8_encode
               ((unat c - 0xD800) * 0x400 + (unat k - 0xDC00) + 0x10000)) @ e'"
        by (auto simp: then_append_Inr_iff split: list.splits if_splits)
      with "2.IH"(3) unres low True have d: "decodeURIComponent e' = Inr ks" by simp
      show ?thesis
        unfolding e'(2) cs
        by (simp add: decode_percent_utf8 [OF pair_code_point_range [OF True k]] d
            utf16_encode_pair [OF True k] then_append_def)
    qed
  qed
qed

section \<open>Facts about the handlers\<close>

lemma header_method_update [simp]:
  "header (ev\<lparr>httpMethod := m\<rparr>) k = header ev k"
  "header (ev\<lparr>requestContext_http_method := m\<rparr>) k = header ev k"
  by (simp_all add: header_def)

lemma query_method_update [simp]:
  "query (ev\<lparr>httpMethod := m\<rparr>) k = query ev k"
  "query (ev\<lparr>requestContext_http_method := m\<rparr>) k = query ev k"
  by (simp_all add: query_def)

lemma getCorsHeaders_method_update [simp]:
  "getCorsHeaders e (ev\<lparr>httpMethod := m\<rparr>) = getCorsHeaders e ev"
  "getCorsHeaders e (ev\<lparr>requestContext_http_method := m\<rparr>) = getCorsHeaders e ev"
  by (simp_all add: getCorsHeaders_def)

lemma extractStateFromCookies_method_update [simp]:
  "extractStateFromCookies (ev\<lparr>httpMethod := m\<rparr>) = extractStateFromCookies ev"
  "extractStateFromCookies (ev\<lparr>requestContext_http_method := m\<rparr>) = extractStateFromCookies ev"
  by (simp_all add: extractStateFromCookies_def parseCookies_def cookieHeader_def)

lemma callback_status: "statusCode (fst (callback_handler e fetch ev)) \<in> {200, 400, 500}"
  by (simp add: callback_handler_def Let_def error_page_def split: sum.split)

lemma valid_dev_env: "valid (validateConfig dev_env)"
  by code_simp

section \<open>The Callback Processor and the HTTP method\<close>

text \<open>
  C10. The Callback Processor never reads the request's method: changing the method
  fields of the event changes neither the response nor the outbound requests, and its
  status is never 405 (it is 200, 400 or 500). The Login Initiator, once the
  configuration is valid, answers \<open>OPTIONS\<close> with 200 and every method that is neither
  \<open>OPTIONS\<close> nor \<open>GET\<close> (a missing method included) with 405.
\<close>

theorem callback_ignores_method:
  "callback_handler e fetch (ev\<lparr>httpMethod := m, requestContext_http_method := m'\<rparr>) =
     callback_handler e fetch ev
   \<and> statusCode (fst (callback_handler e fetch ev)) \<noteq> 405
   \<and> (valid (validateConfig e) \<longrightarrow>
        (request_method ev = Some (js ''OPTIONS'') \<longrightarrow> statusCode (login_handler e rb ev) = 200)
        \<and> (request_method ev \<noteq> Some (js ''OPTIONS'') \<and> request_method ev \<noteq> Some (js ''GET'') \<longrightarrow>
             statusCode (login_handler e rb ev) = 405))"
proof (intro conjI impI)
  show "callback_handler e fetch (ev\<lparr>httpMethod := m, requestContext_http_method := m'\<rparr>) =
     callback_handler e fetch ev"
    unfolding callback_handler_def getCorsHeaders_method_update query_method_update
      extractStateFromCookies_method_update ..
  show "statusCode (fst (callback_handler e fetch ev)) \<noteq> 405"
    using callback_status [of e fetch ev] by auto
next
  assume "valid (validateConfig e)" "request_method ev = Some (js ''OPTIONS'')"
  then show "statusCode (login_handler e rb ev) = 200"
    by (simp add: login_handler_def handlePreflight_def)
next
  assume "valid (validateConfig e)"
    "request_method ev \<noteq> Some (js ''OPTIONS'') \<and> request_method ev \<noteq> Some (js ''GET'')"
  then show "statusCode (login_handler e rb ev) = 405"
    by (simp add: login_handler_def)
qed

theorem callback_ignores_method_witness:
  "callback_handler dev_env provider_fails
      ((request ''GET'' [] [(''code'', ''c0de''), (''state'', ''ab:create'')])
         \<lparr>httpMethod := Some (js ''POST''), requestContext_http_method := Some (js ''POST'')\<rparr>) =
     callback_handler dev_env provider_fails
       (request ''GET'' [] [(''code'', ''c0de''), (''state'', ''ab:create'')])
   \<and> statusCode (fst (callback_handler dev_env provider_fails
         (request ''GET'' [] [(''code'', ''c0de''), (''state'', ''ab:create'')]))) \<noteq> 405
   \<and> valid (validateConfig dev_env)
   \<and> request_method (request ''OPTIONS'' [] []) = Some (js ''OPTIONS'')
   \<and> statusCode (login_handler dev_env fixed_bytes (request ''OPTIONS'' [] [])) = 200
   \<and> request_method (request ''POST'' [] []) \<noteq> Some (js ''OPTIONS'')
   \<and> request_method (request ''POST'' [] []) \<noteq> Some (js ''GET'')
   \<and> statusCode (login_handler dev_env fixed_bytes (request ''POST'' [] [])) = 405"
proof -
  have o: "request_method (request ''OPTIONS'' [] []) = Some (js ''OPTIONS'')"
    by code_simp
  have p: "request_method (request ''POST'' [] []) \<noteq> Some (js ''OPTIONS'')"
    "request_method (request ''POST'' [] []) \<noteq> Some (js ''GET'')"
    by code_simp+
  note a = callback_ignores_method [where e = dev_env and fetch = provider_fails
      and ev = "request ''GET'' [] [(''code'', ''c0de''), (''state'', ''ab:create'')]"
      and m = "Some (js ''POST'')" and m' = "Some (js ''POST'')" and rb = fixed_bytes]
  note b = callback_ignores_method [where e = dev_env and fetch = provider_fails
      and ev = "request ''OPTIONS'' [] []" and rb = fixed_bytes]
  note c = callback_ignores_method [where e = dev_env and fetch = provider_fails
      and ev = "request ''POST'' [] []" and rb = fixed_bytes]
  from a b c valid_dev_env o p show ?thesis
    by blast
qed

section \<open>The terminal checks of the Callback Processor\<close>

lemma truthy_Some [simp]: "truthy (Some s) \<longleftrightarrow> s \<noteq> []"
  by (simp add: truthy_def)

lemma truthy_None [simp]: "\<not> truthy None"
  by (simp add: truthy_def)

lemma template_Some [simp]: "template (Some s) = s"
  by (simp add: template_def)

lemma extractStateFromCookies_not_empty:
  "extractStateFromCookies ev = Inr stored \<Longrightarrow> truthy stored \<or> stored = None"
  by (auto simp: extractStateFromCookies_def js_or_def split: sum.splits if_splits)

lemma sample_mismatch:
  "extractStateFromCookies
     (request ''GET'' [(''cookie'', ''oauth_state=5b1e%3Acreate'')]
        [(''code'', ''abc''), (''state'', ''77aa:create'')]) = Inr (Some (js ''5b1e:create''))"
  by code_simp

lemma invalid_empty_env: "\<not> valid (validateConfig empty_env)"
  by code_simp



section \<open>CSRF validation\<close>

lemma sample_undecodable:
  "cookieHeader (request ''GET'' [(''cookie'', ''theme=%'')]
      [(''code'', ''abc''), (''state'', ''77aa:create'')]) = js ''theme=%''
   \<and> extractStateFromCookies
     (request ''GET'' [(''cookie'', ''theme=%'')]
        [(''code'', ''abc''), (''state'', ''77aa:create'')]) = Inl URIError"
  by code_simp

lemma sample_no_cookie:
  "extractStateFromCookies (request ''GET'' [] [(''code'', ''abc''), (''state'', ''77aa:create'')]) =
     Inr None"
  by code_simp

lemma sample_query:
  "\<not> truthy (query (request ''GET'' hs [(''code'', ''abc''), (''state'', ''77aa:create'')]) (js ''error''))"
  "query (request ''GET'' hs [(''code'', ''abc''), (''state'', ''77aa:create'')]) (js ''code'') =
     Some (js ''abc'')"
  "js ''abc'' \<noteq> []"
  "query (request ''GET'' hs [(''code'', ''abc''), (''state'', ''77aa:create'')]) (js ''state'') =
     Some (js ''77aa:create'')"
  "js ''77aa:create'' \<noteq> []"
  by (simp_all add: query_def request_def js_def)

text \<open>
  C1, as the specification states it, fails when the cookie header cannot be decoded. The
  request below has a valid configuration, no \<open>error\<close> parameter, \<open>code\<close> and \<open>state\<close>,
  and the cookie header \<open>theme=%\<close>, in which no \<open>oauth_state\<close> cookie stands. The
  decoder throws \<open>URIError\<close> at the value \<open>%\<close>, the handler's \<open>catch\<close> answers, and the
  response is the document \<open>Internal server error\<close> with status 500, not the CSRF
  document with status 400. No outbound request is made.
\<close>

theorem callback_csrf_counterexample:
  "valid (validateConfig dev_env)
   \<and> query (request ''GET'' [(''cookie'', ''theme=%'')]
        [(''code'', ''abc''), (''state'', ''77aa:create'')]) (js ''error'') = None
   \<and> query (request ''GET'' [(''cookie'', ''theme=%'')]
        [(''code'', ''abc''), (''state'', ''77aa:create'')]) (js ''code'') = Some (js ''abc'')
   \<and> query (request ''GET'' [(''cookie'', ''theme=%'')]
        [(''code'', ''abc''), (''state'', ''77aa:create'')]) (js ''state'') = Some (js ''77aa:create'')
   \<and> cookieHeader (request ''GET'' [(''cookie'', ''theme=%'')]
        [(''code'', ''abc''), (''state'', ''77aa:create'')]) = js ''theme=%''
   \<and> callback_handler dev_env provider_fails
        (request ''GET'' [(''cookie'', ''theme=%'')]
           [(''code'', ''abc''), (''state'', ''77aa:create'')]) =
       (error_page 500
          (getCorsHeaders dev_env (request ''GET'' [(''cookie'', ''theme=%'')]
             [(''code'', ''abc''), (''state'', ''77aa:create'')]))
          (js ''Internal server error''), [])
   \<and> statusCode (fst (callback_handler dev_env provider_fails
        (request ''GET'' [(''cookie'', ''theme=%'')]
           [(''code'', ''abc''), (''state'', ''77aa:create'')]))) = 500
   \<and> statusCode (fst (callback_handler dev_env provider_fails
        (request ''GET'' [(''cookie'', ''theme=%'')]
           [(''code'', ''abc''), (''state'', ''77aa:create'')]))) \<noteq> 400"
proof -
  let ?ev = "request ''GET'' [(''cookie'', ''theme=%'')]
        [(''code'', ''abc''), (''state'', ''77aa:create'')]"
  have n: "query ?ev (js ''error'') = None"
    by (simp add: query_def request_def js_def)
  have r: "callback_handler dev_env provider_fails ?ev =
       (error_page 500 (getCorsHeaders dev_env ?ev) (js ''Internal server error''), [])"
    using valid_dev_env sample_query sample_undecodable
    by (simp add: callback_handler_def)
  have "statusCode (fst (callback_handler dev_env provider_fails ?ev)) = 500"
    unfolding r by (simp add: error_page_def)
  with r n valid_dev_env sample_query(2,4) sample_undecodable
  show ?thesis
    by simp
qed

text \<open>
  C1, amended. Take a callback with a valid configuration, no (or an empty) \<open>error\<close>
  parameter, and non-empty \<open>code\<close> and \<open>state\<close> parameters. If the cookie header
  decodes and the decoded \<open>oauth_state\<close> cookie is absent (\<open>None\<close>) or differs from
  \<open>state\<close> in any code unit, the response is the CSRF document with status 400 and no
  outbound request is made. If decoding the cookie header throws (some cookie's value is
  not valid percent-encoding), the response is the document \<open>Internal server error\<close>
  with status 500, and again no outbound request is made. An outbound request is made
  only when the decoder returns exactly \<open>state\<close>; and in that case the token exchange
  is requested.
\<close>

theorem callback_csrf:
  assumes "valid (validateConfig e)" and "\<not> truthy (query ev (js ''error''))"
    and "query ev (js ''code'') = Some code" and "code \<noteq> []"
    and "query ev (js ''state'') = Some st" and "st \<noteq> []"
  shows "(\<forall>stored. extractStateFromCookies ev = Inr stored \<and> stored \<noteq> Some st \<longrightarrow>
            callback_handler e fetch ev =
              (error_page 400 (getCorsHeaders e ev)
                 (js ''Invalid state parameter - possible CSRF attack''), [])
            \<and> statusCode (fst (callback_handler e fetch ev)) = 400)
       \<and> (\<forall>thrown. extractStateFromCookies ev = Inl thrown \<longrightarrow>
            callback_handler e fetch ev =
              (error_page 500 (getCorsHeaders e ev) (js ''Internal server error''), [])
            \<and> statusCode (fst (callback_handler e fetch ev)) = 500)
       \<and> (snd (callback_handler e fetch ev) \<noteq> [] \<longrightarrow> extractStateFromCookies ev = Inr (Some st))
       \<and> (extractStateFromCookies ev = Inr (Some st) \<longrightarrow>
            snd (callback_handler e fetch ev) = [token_request e code])"
proof (intro conjI allI impI)
  fix stored
  assume "extractStateFromCookies ev = Inr stored \<and> stored \<noteq> Some st"
  with assms show r: "callback_handler e fetch ev =
              (error_page 400 (getCorsHeaders e ev)
                 (js ''Invalid state parameter - possible CSRF attack''), [])"
    by (simp add: callback_handler_def)
  show "statusCode (fst (callback_handler e fetch ev)) = 400"
    unfolding r by (simp add: error_page_def)
next
  fix thrown
  assume "extractStateFromCookies ev = Inl thrown"
  with assms show r: "callback_handler e fetch ev =
              (error_page 500 (getCorsHeaders e ev) (js ''Internal server error''), [])"
    by (simp add: callback_handler_def)
  show "statusCode (fst (callback_handler e fetch ev)) = 500"
    unfolding r by (simp add: error_page_def)
next
  assume "snd (callback_handler e fetch ev) \<noteq> []"
  with assms show "extractStateFromCookies ev = Inr (Some st)"
    by (auto simp: callback_handler_def Let_def split: sum.splits if_splits)
next
  assume "extractStateFromCookies ev = Inr (Some st)"
  with assms show "snd (callback_handler e fetch ev) = [token_request e code]"
    by (simp add: callback_handler_def Let_def split: sum.splits)
qed

theorem callback_csrf_witness:
  "valid (validateConfig dev_env)
   \<and> \<not> truthy (query (request ''GET'' [(''cookie'', ''oauth_state=5b1e%3Acreate'')]
        [(''code'', ''abc''), (''state'', ''77aa:create'')]) (js ''error''))
   \<and> extractStateFromCookies
        (request ''GET'' [(''cookie'', ''oauth_state=5b1e%3Acreate'')]
           [(''code'', ''abc''), (''state'', ''77aa:create'')]) = Inr (Some (js ''5b1e:create''))
   \<and> callback_handler dev_env provider_fails
        (request ''GET'' [(''cookie'', ''oauth_state=5b1e%3Acreate'')]
           [(''code'', ''abc''), (''state'', ''77aa:create'')]) =
       (error_page 400
          (getCorsHeaders dev_env (request ''GET'' [(''cookie'', ''oauth_state=5b1e%3Acreate'')]
             [(''code'', ''abc''), (''state'', ''77aa:create'')]))
          (js ''Invalid state parameter - possible CSRF attack''), [])
   \<and> extractStateFromCookies
        (request ''GET'' [] [(''code'', ''abc''), (''state'', ''77aa:create'')]) = Inr None
   \<and> callback_handler dev_env provider_fails
        (request ''GET'' [] [(''code'', ''abc''), (''state'', ''77aa:create'')]) =
       (error_page 400
          (getCorsHeaders dev_env (request ''GET'' [] [(''code'', ''abc''), (''state'', ''77aa:create'')]))
          (js ''Invalid state parameter - possible CSRF attack''), [])
   \<and> extractStateFromCookies
        (request ''GET'' [(''cookie'', ''theme=%'')]
           [(''code'', ''abc''), (''state'', ''77aa:create'')]) = Inl URIError
   \<and> callback_handler dev_env provider_fails
        (request ''GET'' [(''cookie'', ''theme=%'')]
           [(''code'', ''abc''), (''state'', ''77aa:create'')]) =
       (error_page 500
          (getCorsHeaders dev_env (request ''GET'' [(''cookie'', ''theme=%'')]
             [(''code'', ''abc''), (''state'', ''77aa:create'')]))
          (js ''Internal server error''), [])"
proof -
  let ?differs = "request ''GET'' [(''cookie'', ''oauth_state=5b1e%3Acreate'')]
        [(''code'', ''abc''), (''state'', ''77aa:create'')]"
  let ?absent = "request ''GET'' [] [(''code'', ''abc''), (''state'', ''77aa:create'')]"
  let ?broken = "request ''GET'' [(''cookie'', ''theme=%'')]
        [(''code'', ''abc''), (''state'', ''77aa:create'')]"
  have q: "\<not> truthy (query ?differs (js ''error''))" "query ?differs (js ''code'') = Some (js ''abc'')"
    "js ''abc'' \<noteq> []" "query ?differs (js ''state'') = Some (js ''77aa:create'')"
    "js ''77aa:create'' \<noteq> []"
    by (rule sample_query)+
  have q0: "\<not> truthy (query ?absent (js ''error''))" "query ?absent (js ''code'') = Some (js ''abc'')"
    "js ''abc'' \<noteq> []" "query ?absent (js ''state'') = Some (js ''77aa:create'')"
    "js ''77aa:create'' \<noteq> []"
    by (rule sample_query)+
  have q1: "\<not> truthy (query ?broken (js ''error''))" "query ?broken (js ''code'') = Some (js ''abc'')"
    "js ''abc'' \<noteq> []" "query ?broken (js ''state'') = Some (js ''77aa:create'')"
    "js ''77aa:create'' \<noteq> []"
    by (rule sample_query)+
  have n: "Some (js ''5b1e:create'') \<noteq> Some (js ''77aa:create'')"
    by (simp add: js_def)
  have n0: "None \<noteq> Some (js ''77aa:create'')"
    by simp
  have u: "extractStateFromCookies ?broken = Inl URIError"
    using sample_undecodable by (rule conjunct2)
  note t = callback_csrf [OF valid_dev_env q, of provider_fails]
  note t0 = callback_csrf [OF valid_dev_env q0, of provider_fails]
  note t1 = callback_csrf [OF valid_dev_env q1, of provider_fails]
  have c: "callback_handler dev_env provider_fails ?differs =
       (error_page 400 (getCorsHeaders dev_env ?differs)
          (js ''Invalid state parameter - possible CSRF attack''), [])"
    by (rule t [THEN conjunct1, rule_format, THEN conjunct1, OF conjI [OF sample_mismatch n]])
  have c0: "callback_handler dev_env provider_fails ?absent =
       (error_page 400 (getCorsHeaders dev_env ?absent)
          (js ''Invalid state parameter - possible CSRF attack''), [])"
    by (rule t0 [THEN conjunct1, rule_format, THEN conjunct1, OF conjI [OF sample_no_cookie n0]])
  have c1: "callback_handler dev_env provider_fails ?broken =
       (error_page 500 (getCorsHeaders dev_env ?broken) (js ''Internal server error''), [])"
    by (rule t1 [THEN conjunct2, THEN conjunct1, rule_format, THEN conjunct1, OF u])
  show ?thesis
    by (intro conjI valid_dev_env q(1) sample_mismatch c sample_no_cookie c0 u c1)
qed

section \<open>Configuration errors\<close>

lemma allowedOrigins_nonempty: "allowedOrigins (getConfig e) \<noteq> []"
  by (simp add: getConfig_def Let_def js_def)

lemma js_or_falsy: "\<not> truthy a \<Longrightarrow> \<not> truthy b \<Longrightarrow> \<not> truthy (js_or a b)"
  by (simp add: js_or_def)

lemma validateConfig_no_credentials:
  assumes "\<not> truthy (GITHUB_CLIENT_ID e)" "\<not> truthy (GH_CLIENT_ID e)"
    and "\<not> truthy (GITHUB_CLIENT_SECRET e)" "\<not> truthy (GH_CLIENT_SECRET e)"
  shows "validateConfig e =
    \<lparr>valid = False, errors = [js ''Missing GitHub Client ID'', js ''Missing GitHub Client Secret'']\<rparr>"
proof -
  have "\<not> truthy (clientId (github (getConfig e)))" "\<not> truthy (clientSecret (github (getConfig e)))"
    using assms by (simp_all add: getConfig_def Let_def js_or_falsy)
  then show ?thesis
    using allowedOrigins_nonempty [of e] by (simp add: validateConfig_def Let_def)
qed

lemma config_error_json:
  \<open>JSON_stringify
     [(js ''error'', JString (js ''Server configuration error'')),
      (js ''details'', JStrings [js ''Missing GitHub Client ID'', js ''Missing GitHub Client Secret''])] =
   js ''{"error":"Server configuration error","details":["Missing GitHub Client ID","Missing GitHub Client Secret"]}''\<close>
  by (simp add: JSON_stringify_def json_quote_def js_def is_high_surrogate_def is_low_surrogate_def
      json_escape_def)

lemma no_G_in_config_error_document:
  "of_char (CHR ''G'') \<notin> set (generateErrorHTML (js ''Server configuration error''))"
  unfolding generateErrorHTML_def error_html_before_def error_html_after_def
    js_append [symmetric] js_mem
  by simp

lemma config_error_document_lists_nothing:
  assumes "CHR ''G'' \<in> set item"
  shows "\<not> sublist (js item) (generateErrorHTML (js ''Server configuration error''))"
proof
  assume "sublist (js item) (generateErrorHTML (js ''Server configuration error''))"
  then have "set (js item) \<subseteq> set (generateErrorHTML (js ''Server configuration error''))"
    by (rule set_mono_sublist)
  moreover have "of_char (CHR ''G'') \<in> set (js item)"
    using assms unfolding js_mem .
  ultimately show False
    using no_G_in_config_error_document by blast
qed

text \<open>
  C5, as the specification states it, fails for the Callback Processor: with no
  credential in the environment its 500 response is the fixed document
  \<open>Server configuration error\<close>, in which neither missing item is named.
\<close>

theorem callback_config_error_counterexample:
  "\<not> truthy (GITHUB_CLIENT_ID empty_env) \<and> \<not> truthy (GH_CLIENT_ID empty_env)
   \<and> \<not> truthy (GITHUB_CLIENT_SECRET empty_env) \<and> \<not> truthy (GH_CLIENT_SECRET empty_env)
   \<and> \<not> sublist (js ''Missing GitHub Client ID'')
         (body (fst (callback_handler empty_env provider_fails (request ''GET'' [] []))))
   \<and> \<not> sublist (js ''Missing GitHub Client Secret'')
         (body (fst (callback_handler empty_env provider_fails (request ''GET'' [] []))))"
proof -
  have "callback_handler empty_env provider_fails (request ''GET'' [] []) =
        (\<lparr>statusCode = 500, responseHeaders = [(js ''Content-Type'', Some (js ''text/html''))],
          cookies = [], body = generateErrorHTML (js ''Server configuration error'')\<rparr>, [])"
    using invalid_empty_env by (simp add: callback_handler_def)
  then show ?thesis
    by (simp add: config_error_document_lists_nothing empty_env_def)
qed

text \<open>
  C5, amended. When the client id and the client secret are both absent (or empty) under
  both of their names, the Login Initiator returns status 500 with a JSON body that lists
  \<open>Missing GitHub Client ID\<close> and \<open>Missing GitHub Client Secret\<close>, and sets no
  cookie; the Callback Processor returns status 500 with the HTML document
  \<open>Server configuration error\<close>, which names neither item, and makes no outbound
  request. Neither handler looks at the request.
\<close>

theorem config_error_both_missing:
  assumes "\<not> truthy (GITHUB_CLIENT_ID e)" "\<not> truthy (GH_CLIENT_ID e)"
    and "\<not> truthy (GITHUB_CLIENT_SECRET e)" "\<not> truthy (GH_CLIENT_SECRET e)"
  shows \<open>login_handler e rb ev =
      \<lparr>statusCode = 500, responseHeaders = [(js ''Content-Type'', Some (js ''application/json''))],
       cookies = [],
       body = js ''{"error":"Server configuration error","details":["Missing GitHub Client ID","Missing GitHub Client Secret"]}''\<rparr>
    \<and> sublist (js ''Missing GitHub Client ID'') (body (login_handler e rb ev))
    \<and> sublist (js ''Missing GitHub Client Secret'') (body (login_handler e rb ev))
    \<and> callback_handler e fetch ev =
      (\<lparr>statusCode = 500, responseHeaders = [(js ''Content-Type'', Some (js ''text/html''))],
        cookies = [], body = generateErrorHTML (js ''Server configuration error'')\<rparr>, [])
    \<and> \<not> sublist (js ''Missing GitHub Client ID'') (body (fst (callback_handler e fetch ev)))
    \<and> \<not> sublist (js ''Missing GitHub Client Secret'') (body (fst (callback_handler e fetch ev)))\<close>
proof -
  note v = validateConfig_no_credentials [OF assms]
  have l: \<open>login_handler e rb ev =
      \<lparr>statusCode = 500, responseHeaders = [(js ''Content-Type'', Some (js ''application/json''))],
       cookies = [],
       body = js ''{"error":"Server configuration error","details":["Missing GitHub Client ID","Missing GitHub Client Secret"]}''\<rparr>\<close>
    by (simp add: login_handler_def v config_error_json)
  have c: "callback_handler e fetch ev =
      (\<lparr>statusCode = 500, responseHeaders = [(js ''Content-Type'', Some (js ''text/html''))],
        cookies = [], body = generateErrorHTML (js ''Server configuration error'')\<rparr>, [])"
    by (simp add: callback_handler_def v)
  have s1: \<open>js ''{"error":"Server configuration error","details":["Missing GitHub Client ID","Missing GitHub Client Secret"]}'' =
      js ''{"error":"Server configuration error","details":["'' @ js ''Missing GitHub Client ID'' @
      js ''","Missing GitHub Client Secret"]}''\<close>
    by (simp add: js_def)
  have s2: \<open>js ''{"error":"Server configuration error","details":["Missing GitHub Client ID","Missing GitHub Client Secret"]}'' =
      js ''{"error":"Server configuration error","details":["Missing GitHub Client ID","'' @
      js ''Missing GitHub Client Secret'' @ js ''"]}''\<close>
    by (simp add: js_def)
  have "sublist (js ''Missing GitHub Client ID'') (body (login_handler e rb ev))"
    unfolding l by (simp only: response.simps, subst s1, rule sublist_appendI)
  moreover have "sublist (js ''Missing GitHub Client Secret'') (body (login_handler e rb ev))"
    unfolding l by (simp only: response.simps, subst s2, rule sublist_appendI)
  ultimately show ?thesis
    using l c by (simp add: config_error_document_lists_nothing)
qed

theorem config_error_both_missing_witness:
  \<open>\<not> truthy (GITHUB_CLIENT_ID empty_env) \<and> \<not> truthy (GH_CLIENT_ID empty_env)
   \<and> \<not> truthy (GITHUB_CLIENT_SECRET empty_env) \<and> \<not> truthy (GH_CLIENT_SECRET empty_env)
   \<and> login_handler empty_env fixed_bytes (request ''GET'' [] [(''project'', ''create'')]) =
      \<lparr>statusCode = 500, responseHeaders = [(js ''Content-Type'', Some (js ''application/json''))],
       cookies = [],
       body = js ''{"error":"Server configuration error","details":["Missing GitHub Client ID","Missing GitHub Client Secret"]}''\<rparr>
   \<and> callback_handler empty_env provider_fails (request ''GET'' [] [(''project'', ''create'')]) =
      (\<lparr>statusCode = 500, responseHeaders = [(js ''Content-Type'', Some (js ''text/html''))],
        cookies = [], body = generateErrorHTML (js ''Server configuration error'')\<rparr>, [])\<close>
proof -
  have h: "\<not> truthy (GITHUB_CLIENT_ID empty_env)" "\<not> truthy (GH_CLIENT_ID empty_env)"
    "\<not> truthy (GITHUB_CLIENT_SECRET empty_env)" "\<not> truthy (GH_CLIENT_SECRET empty_env)"
    by (simp_all add: empty_env_def)
  from config_error_both_missing [OF h, of fixed_bytes "request ''GET'' [] [(''project'', ''create'')]"
      provider_fails] h
  show ?thesis
    by blast
qed

section \<open>The state token and the state cookie\<close>

lemma split_nonempty: "split sep s \<noteq> []"
  by (induction s) (auto split: list.splits)

lemma split_no_separator: "sep \<notin> set s \<Longrightarrow> split sep s = [s]"
  by (induction s) auto

lemma split_at_separator: "sep \<notin> set a \<Longrightarrow> split sep (a @ sep # b) = a # split sep b"
  by (induction a) auto

lemma js_colon: "js '':'' = [0x3A]"
  by (simp add: js_def)

lemma project_of_state_token:
  assumes "0x3A \<notin> set h" "0x3A \<notin> set p"
  shows "project_of_state (h @ js '':'' @ p) = p"
  using assms by (simp add: project_of_state_def js_colon split_at_separator split_no_separator)

lemma hex_lower_cases:
  assumes "d < 16"
  shows "hex_lower d \<in> set (js ''0123456789abcdef'')"
proof -
  from assms have "d = 0 \<or> d = 1 \<or> d = 2 \<or> d = 3 \<or> d = 4 \<or> d = 5 \<or> d = 6 \<or> d = 7
      \<or> d = 8 \<or> d = 9 \<or> d = 10 \<or> d = 11 \<or> d = 12 \<or> d = 13 \<or> d = 14 \<or> d = 15"
    by presburger
  then show ?thesis
    by (elim disjE) (simp_all add: hex_lower_def js_def)
qed

lemma unat_byte_less: "unat (b :: 8 word) < 256"
proof -
  have "unat b < 2 ^ LENGTH(8)" by (rule unsigned_less)
  then show ?thesis by simp
qed

lemma hex_string_length: "length (hex_string bytes) = 2 * length bytes"
  by (induction bytes) (simp_all add: hex_string_def)

lemma hex_string_digits: "set (hex_string bytes) \<subseteq> set (js ''0123456789abcdef'')"
proof (induction bytes)
  case Nil
  then show ?case by (simp add: hex_string_def)
next
  case (Cons b bytes)
  have "unat b div 16 < 16" "unat b mod 16 < 16"
    using unat_byte_less [of b] by simp_all
  then have "hex_lower (unat b div 16) \<in> set (js ''0123456789abcdef'')"
    "hex_lower (unat b mod 16) \<in> set (js ''0123456789abcdef'')"
    by (simp_all only: hex_lower_cases)
  with Cons show ?case
    by (simp add: hex_string_def)
qed

lemma hex_string_no_colon: "0x3A \<notin> set (hex_string bytes)"
proof -
  have "(0x3A :: jschar) \<notin> set (js ''0123456789abcdef'')"
    by (simp add: js_def)
  with hex_string_digits [of bytes] show ?thesis
    by blast
qed

lemma stateLength_16: "stateLength (security (getConfig e)) = 16"
  by (simp add: getConfig_def Let_def)

lemma registered_project:
  assumes "projects_get (projects (getConfig e)) p = Own pc"
  shows "p = js ''create'' \<or> p = js ''prompts''"
  using assms by (auto simp: projects_get_def split: if_splits)

lemma fixed_bytes_length: "length (fixed_bytes 16) = 16"
  by (simp add: fixed_bytes_def)

lemmas encode_eval = js_def uri_unreserved_def is_alnum_def is_low_surrogate_def
  is_high_surrogate_def percent_encode_def utf8_encode_def hex_upper_def then_append_def

lemma then_append_then_append: "then_append a (then_append b r) = then_append (a @ b) r"
  by (cases r) (simp_all add: then_append_def)

lemma encodeURIComponent_unreserved_prefix:
  "\<forall>c\<in>set a. uri_unreserved c \<Longrightarrow>
     encodeURIComponent (a @ b) = then_append a (encodeURIComponent b)"
proof (induction a)
  case Nil
  show ?case by (cases "encodeURIComponent b") (simp_all add: then_append_def)
next
  case (Cons c a)
  then show ?case by (simp add: then_append_then_append)
qed

lemma hex_digits_unreserved: "\<forall>c\<in>set (js ''0123456789abcdef''). uri_unreserved c"
  by (simp add: js_def uri_unreserved_def is_alnum_def)

lemma hex_string_unreserved: "\<forall>c\<in>set (hex_string bytes). uri_unreserved c"
  using hex_string_digits [of bytes] hex_digits_unreserved by blast

lemma cookie_attributes:
  "js ''; HttpOnly'' @ (if b then js ''; Secure'' else []) @ js ''; SameSite='' @ js ''Lax'' @
     js ''; Max-Age='' @ decimal 600 @ js ''; Path='' @ js ''/'' =
   js ''; HttpOnly'' @ (if b then js ''; Secure'' else []) @ js ''; SameSite=Lax; Max-Age=600; Path=/''"
  by (simp add: js_def decimal.simps)

lemma createCookieHeader_oauth_state:
  "createCookieHeader (js ''oauth_state'') st (getCookieOptions environment) =
     (case encodeURIComponent st of
        Inl err \<Rightarrow> Inl err
      | Inr v \<Rightarrow> Inr (js ''oauth_state='' @ v @ js ''; HttpOnly'' @
          (if environment = Some (js ''production'') then js ''; Secure'' else []) @
          js ''; SameSite=Lax; Max-Age=600; Path=/''))"
proof -
  have n: "js ''Lax'' \<noteq> []" "js ''/'' \<noteq> []" "js ''oauth_state'' @ js ''='' = js ''oauth_state=''"
    by (simp_all add: js_def)
  show ?thesis
    using cookie_attributes [of "environment = Some (js ''production'')"]
    by (simp add: createCookieHeader_def getCookieOptions_def n split: sum.splits)
qed

lemma login_redirect:
  assumes "valid (validateConfig e)" and "request_method ev = Some (js ''GET'')"
    and "encodeURIComponent (stateWithProject e rb (requested_project ev)) = Inr v"
  shows "login_handler e rb ev =
    \<lparr>statusCode = 302,
     responseHeaders = getCorsHeaders e ev @
       [(js ''Location'', Some (githubAuthUrl e (stateWithProject e rb (requested_project ev))))],
     cookies = [js ''oauth_state='' @ v @ js ''; HttpOnly'' @
       (if NODE_ENV e = Some (js ''production'') then js ''; Secure'' else []) @
       js ''; SameSite=Lax; Max-Age=600; Path=/''],
     body = []\<rparr>"
proof -
  have g: "js ''GET'' \<noteq> js ''OPTIONS''"
    by (simp add: js_def)
  show ?thesis
    using assms g
    by (simp add: login_handler_def Let_def createCookieHeader_oauth_state)
qed

lemma login_302_reached:
  assumes "statusCode (login_handler e rb ev) = 302"
  shows "valid (validateConfig e) \<and> request_method ev = Some (js ''GET'')
    \<and> (\<exists>v. encodeURIComponent (stateWithProject e rb (requested_project ev)) = Inr v)"
  using assms
  by (auto simp: login_handler_def Let_def handlePreflight_def createCookieHeader_oauth_state
      split: if_splits sum.splits)

lemma encodeURIComponent_registered_token:
  assumes "p = js ''create'' \<or> p = js ''prompts''"
  shows "encodeURIComponent (hex_string bytes @ js '':'' @ p) = Inr (hex_string bytes @ js ''%3A'' @ p)"
proof -
  have "encodeURIComponent (js '':'' @ js ''create'') = Inr (js ''%3A'' @ js ''create'')"
    "encodeURIComponent (js '':'' @ js ''prompts'') = Inr (js ''%3A'' @ js ''prompts'')"
    by (simp_all add: encode_eval)
  with assms have "encodeURIComponent (js '':'' @ p) = Inr (js ''%3A'' @ p)"
    by blast
  then show ?thesis
    by (simp add: encodeURIComponent_unreserved_prefix [OF hex_string_unreserved] then_append_def)
qed

lemma valid_prod_env: "valid (validateConfig prod_env)"
  by code_simp

lemma requested_project_Some: "query ev (js ''project'') = Some p \<Longrightarrow> requested_project ev = p"
  by (simp add: requested_project_def)

text \<open>
  C3. For every registered project id \<open>p\<close> (an own key of the project table: \<open>create\<close>
  or \<open>prompts\<close>, neither of which holds a colon) and a random source that gives the 16
  bytes asked for, the state token of a login is \<open>h @ '':'' @ p\<close>, where \<open>h\<close> is the
  lower-case hex string of the 16 bytes: 32 characters, all hex digits. The Callback
  Processor's extraction, the second piece of the token split at colons, gives back
  exactly \<open>p\<close>. This token is the one the Login Initiator issues: with a valid
  configuration and the method \<open>GET\<close>, a request for project \<open>p\<close> is answered 302
  with the token in the \<open>state\<close> parameter of the \<open>Location\<close> and, percent-encoded,
  as the value of the \<open>oauth_state\<close> cookie.
\<close>

theorem state_token_round_trip:
  assumes "projects_get (projects (getConfig e)) p = Own pc"
    and "length (randomBytes 16) = 16"
  shows "stateWithProject e randomBytes p = hex_string (randomBytes 16) @ js '':'' @ p
    \<and> length (hex_string (randomBytes 16)) = 32
    \<and> set (hex_string (randomBytes 16)) \<subseteq> set (js ''0123456789abcdef'')
    \<and> 0x3A \<notin> set p
    \<and> project_of_state (stateWithProject e randomBytes p) = p
    \<and> (valid (validateConfig e) \<and> request_method ev = Some (js ''GET'')
         \<and> query ev (js ''project'') = Some p \<longrightarrow>
        login_handler e randomBytes ev =
          \<lparr>statusCode = 302,
           responseHeaders = getCorsHeaders e ev @
             [(js ''Location'', Some (githubAuthUrl e (stateWithProject e randomBytes p)))],
           cookies = [js ''oauth_state='' @ hex_string (randomBytes 16) @ js ''%3A'' @ p @
             js ''; HttpOnly'' @
             (if NODE_ENV e = Some (js ''production'') then js ''; Secure'' else []) @
             js ''; SameSite=Lax; Max-Age=600; Path=/''],
           body = []\<rparr>)"
proof -
  have t: "stateWithProject e randomBytes p = hex_string (randomBytes 16) @ js '':'' @ p"
    by (simp add: stateWithProject_def stateLength_16)
  have c: "0x3A \<notin> set p"
    using registered_project [OF assms(1)] by (auto simp: js_def)
  have r: "project_of_state (stateWithProject e randomBytes p) = p"
    unfolding t using hex_string_no_colon c by (rule project_of_state_token)
  have l: "login_handler e randomBytes ev =
          \<lparr>statusCode = 302,
           responseHeaders = getCorsHeaders e ev @
             [(js ''Location'', Some (githubAuthUrl e (stateWithProject e randomBytes p)))],
           cookies = [js ''oauth_state='' @ hex_string (randomBytes 16) @ js ''%3A'' @ p @
             js ''; HttpOnly'' @
             (if NODE_ENV e = Some (js ''production'') then js ''; Secure'' else []) @
             js ''; SameSite=Lax; Max-Age=600; Path=/''],
           body = []\<rparr>"
    if h: "valid (validateConfig e) \<and> request_method ev = Some (js ''GET'')
         \<and> query ev (js ''project'') = Some p"
  proof -
    from h have q: "requested_project ev = p"
      by (simp add: requested_project_Some)
    have "encodeURIComponent (stateWithProject e randomBytes (requested_project ev)) =
        Inr (hex_string (randomBytes 16) @ js ''%3A'' @ p)"
      unfolding q t by (rule encodeURIComponent_registered_token [OF registered_project [OF assms(1)]])
    from login_redirect [OF _ _ this] h show ?thesis
      by (simp add: q)
  qed
  from t c r l assms(2) show ?thesis
    by (simp add: hex_string_length hex_string_digits)
qed

theorem state_token_round_trip_witness:
  "projects_get (projects (getConfig dev_env)) (js ''prompts'') =
     Own \<lparr>project_name = js ''prompts'', frontendUrl = js ''http://localhost:5174''\<rparr>
   \<and> length (fixed_bytes 16) = 16
   \<and> stateWithProject dev_env fixed_bytes (js ''prompts'') =
       js ''abababababababababababababababab:prompts''
   \<and> project_of_state (js ''abababababababababababababababab:prompts'') = js ''prompts''"
proof -
  have r: "projects_get (projects (getConfig dev_env)) (js ''prompts'') =
     Own \<lparr>project_name = js ''prompts'', frontendUrl = js ''http://localhost:5174''\<rparr>"
    by code_simp
  have h: "hex_string (fixed_bytes 16) @ js '':'' @ js ''prompts'' =
      js ''abababababababababababababababab:prompts''"
    by code_simp
  note t = state_token_round_trip [where e = dev_env and p = "js ''prompts''"
      and randomBytes = fixed_bytes and ev = "request ''GET'' [] []", OF r fixed_bytes_length]
  from t h have s: "stateWithProject dev_env fixed_bytes (js ''prompts'') =
       js ''abababababababababababababababab:prompts''"
    by simp
  from t have "project_of_state (stateWithProject dev_env fixed_bytes (js ''prompts'')) =
      js ''prompts''"
    by blast
  then have "project_of_state (js ''abababababababababababababababab:prompts'') = js ''prompts''"
    unfolding s .
  with r s fixed_bytes_length show ?thesis
    by blast
qed

text \<open>
  C6. Whenever the Login Initiator answers 302 (which needs a valid configuration and the
  method \<open>GET\<close>), the response carries exactly one cookie string: the name
  \<open>oauth_state\<close>, the percent-encoded state token as the value (decoding it gives the
  token back), then \<open>HttpOnly\<close>, then \<open>Secure\<close> exactly when \<open>NODE_ENV\<close> is
  \<open>production\<close>, then \<open>SameSite=Lax\<close>, \<open>Max-Age=600\<close> and \<open>Path=/\<close>, and no
  \<open>Domain\<close>.
\<close>

theorem login_state_cookie:
  assumes "statusCode (login_handler e rb ev) = 302"
  shows "valid (validateConfig e) \<and> request_method ev = Some (js ''GET'')
    \<and> (\<exists>v. encodeURIComponent (stateWithProject e rb (requested_project ev)) = Inr v
          \<and> decodeURIComponent v = Inr (stateWithProject e rb (requested_project ev))
          \<and> cookies (login_handler e rb ev) =
              [js ''oauth_state='' @ v @ js ''; HttpOnly'' @
               (if NODE_ENV e = Some (js ''production'') then js ''; Secure'' else []) @
               js ''; SameSite=Lax; Max-Age=600; Path=/''])"
proof -
  from login_302_reached [OF assms] obtain v where
    c: "valid (validateConfig e)" "request_method ev = Some (js ''GET'')"
    and v: "encodeURIComponent (stateWithProject e rb (requested_project ev)) = Inr v"
    by blast
  from login_redirect [OF c v] have "cookies (login_handler e rb ev) =
              [js ''oauth_state='' @ v @ js ''; HttpOnly'' @
               (if NODE_ENV e = Some (js ''production'') then js ''; Secure'' else []) @
               js ''; SameSite=Lax; Max-Age=600; Path=/'']"
    by simp
  with c v decode_encode [OF v] show ?thesis
    by blast
qed

theorem login_state_cookie_witness:
  "statusCode (login_handler dev_env fixed_bytes (request ''GET'' [] [(''project'', ''prompts'')])) = 302
   \<and> cookies (login_handler dev_env fixed_bytes (request ''GET'' [] [(''project'', ''prompts'')])) =
      [js ''oauth_state=abababababababababababababababab%3Aprompts; HttpOnly; SameSite=Lax; Max-Age=600; Path=/'']
   \<and> statusCode (login_handler prod_env fixed_bytes (request ''GET'' [] [])) = 302
   \<and> cookies (login_handler prod_env fixed_bytes (request ''GET'' [] [])) =
      [js ''oauth_state=abababababababababababababababab%3Acreate; HttpOnly; Secure; SameSite=Lax; Max-Age=600; Path=/'']"
proof -
  let ?ev = "request ''GET'' [] [(''project'', ''prompts'')]"
  let ?ev' = "request ''GET'' [] []"
  have m: "request_method ?ev = Some (js ''GET'')" "request_method ?ev' = Some (js ''GET'')"
    by code_simp+
  have t: "stateWithProject dev_env fixed_bytes (requested_project ?ev) =
      js ''abababababababababababababababab:prompts''"
    "stateWithProject prod_env fixed_bytes (requested_project ?ev') =
      js ''abababababababababababababababab:create''"
    by code_simp+
  have v: "encodeURIComponent (js ''abababababababababababababababab:prompts'') =
      Inr (js ''abababababababababababababababab%3Aprompts'')"
    "encodeURIComponent (js ''abababababababababababababababab:create'') =
      Inr (js ''abababababababababababababababab%3Acreate'')"
    by (simp_all add: encode_eval)
  have s: "statusCode (login_handler dev_env fixed_bytes ?ev) = 302"
    using login_redirect [OF valid_dev_env m(1), of fixed_bytes] v(1) by (simp add: t)
  have s': "statusCode (login_handler prod_env fixed_bytes ?ev') = 302"
    using login_redirect [OF valid_prod_env m(2), of fixed_bytes] v(2) by (simp add: t)
  have n: "NODE_ENV dev_env \<noteq> Some (js ''production'')" "NODE_ENV prod_env = Some (js ''production'')"
    by (simp_all add: dev_env_def prod_env_def)
  have j: "js ''oauth_state='' @ js ''abababababababababababababababab%3Aprompts'' @ js ''; HttpOnly'' @
      js ''; SameSite=Lax; Max-Age=600; Path=/'' =
      js ''oauth_state=abababababababababababababababab%3Aprompts; HttpOnly; SameSite=Lax; Max-Age=600; Path=/''"
    "js ''oauth_state='' @ js ''abababababababababababababababab%3Acreate'' @ js ''; HttpOnly'' @
      js ''; Secure'' @ js ''; SameSite=Lax; Max-Age=600; Path=/'' =
      js ''oauth_state=abababababababababababababababab%3Acreate; HttpOnly; Secure; SameSite=Lax; Max-Age=600; Path=/''"
    by (simp_all add: js_def)
  from login_state_cookie [OF s] have "cookies (login_handler dev_env fixed_bytes ?ev) =
      [js ''oauth_state=abababababababababababababababab%3Aprompts; HttpOnly; SameSite=Lax; Max-Age=600; Path=/'']"
    unfolding t v using n(1) j(1) by auto
  moreover from login_state_cookie [OF s'] have "cookies (login_handler prod_env fixed_bytes ?ev') =
      [js ''oauth_state=abababababababababababababababab%3Acreate; HttpOnly; Secure; SameSite=Lax; Max-Age=600; Path=/'']"
    unfolding t v using n(2) j(2) by auto
  ultimately show ?thesis
    using s s' by blast
qed

section \<open>The Origin Resolver and the delivery of the token\<close>

lemma callback_success:
  assumes "valid (validateConfig e)" and "\<not> truthy (query ev (js ''error''))"
    and "query ev (js ''code'') = Some code" and "code \<noteq> []"
    and "query ev (js ''state'') = Some st" and "st \<noteq> []"
    and "extractStateFromCookies ev = Inr (Some st)"
    and "fetch (token_request e code) = Inr d"
    and "\<not> truthy (error d)" and "access_token d = Some t" and "t \<noteq> []"
  shows "callback_handler e fetch ev =
    (\<lparr>statusCode = 200,
      responseHeaders = getCorsHeaders e ev @
        [(js ''Content-Type'', Some (js ''text/html'')),
         (js ''Cache-Control'', Some (js ''no-store, no-cache, must-revalidate''))],
      cookies = [],
      body = generatePostMessageHTML t (getFrontendOrigin e (project_of_state st))\<rparr>,
     [token_request e code])"
  using assms by (simp add: callback_handler_def Let_def)

lemma getFrontendOrigin_cases:
  "getFrontendOrigin e p =
     (if p = js ''create'' then Some (frontendUrl (create (projects (getConfig e))))
      else if p = js ''prompts'' then Some (frontendUrl (prompts (projects (getConfig e))))
      else if p \<in> set Object_prototype then None
      else Some (frontendUrl (create (projects (getConfig e)))))"
  by (simp add: getFrontendOrigin_def projects_get_def Let_def)

text \<open>
  C8, at the input where it fails. \<open>constructor\<close> is no key of the project table, yet
  \<open>config.projects['constructor']\<close> finds the inherited \<open>Object\<close> function, which is
  truthy and has no \<open>frontendUrl\<close>: \<open>getFrontendOrigin\<close> returns \<open>undefined\<close> and not
  the origin of \<open>create\<close>. The same holds for every property name of
  \<open>Object.prototype\<close>. For an id that the read does not find at all, the fallback to
  \<open>create\<close> is taken, as the function's warning says.
\<close>

theorem getFrontendOrigin_inherited_key:
  "projects_get (projects (getConfig e)) (js ''constructor'') = Inherited
   \<and> getFrontendOrigin e (js ''constructor'') = None
   \<and> getFrontendOrigin e (js ''constructor'') \<noteq> Some (frontendUrl (create (projects (getConfig e))))
   \<and> (\<forall>p. projects_get (projects (getConfig e)) p = Missing \<longrightarrow>
          getFrontendOrigin e p = Some (frontendUrl (create (projects (getConfig e)))))"
proof -
  have "projects_get (projects (getConfig e)) (js ''constructor'') = Inherited"
    by (simp add: projects_get_def Object_prototype_def js_def)
  then show ?thesis
    by (simp add: getFrontendOrigin_def)
qed

theorem getFrontendOrigin_inherited_key_witness:
  "projects_get (projects (getConfig dev_env)) (js ''constructor'') = Inherited
   \<and> getFrontendOrigin dev_env (js ''constructor'') = None
   \<and> projects_get (projects (getConfig dev_env)) (js ''blog'') = Missing
   \<and> getFrontendOrigin dev_env (js ''blog'') = Some (js ''http://localhost:5173'')"
proof -
  have m: "projects_get (projects (getConfig dev_env)) (js ''blog'') = Missing"
    by (simp add: projects_get_def Object_prototype_def js_def)
  have c: "frontendUrl (create (projects (getConfig dev_env))) = js ''http://localhost:5173''"
    by (simp add: getConfig_def Let_def isProduction_def dev_env_def)
  from getFrontendOrigin_inherited_key [of dev_env] m c show ?thesis
    by simp
qed

text \<open>
  C2, at the input where it fails. A callback that passes every check, with the state
  \<open>5b1e:constructor\<close> and a provider answer holding \<open>tok123\<close>, is answered 200 with
  the cache-disabling header, and the script posts the token; but the target origin
  written into the script is the text \<open>undefined\<close>, since the Origin Resolver returned
  \<open>undefined\<close> for the project \<open>constructor\<close>.
\<close>

theorem callback_posts_to_undefined:
  "callback_handler dev_env (provider_answers token_answer) inherited_key_request =
     (\<lparr>statusCode = 200,
       responseHeaders = getCorsHeaders dev_env inherited_key_request @
         [(js ''Content-Type'', Some (js ''text/html'')),
          (js ''Cache-Control'', Some (js ''no-store, no-cache, must-revalidate''))],
       cookies = [],
       body = generatePostMessageHTML (js ''tok123'') None\<rparr>,
      [token_request dev_env (js ''c0de'')])
   \<and> generatePostMessageHTML (js ''tok123'') None =
       postMessage_html_before @
       js (''          window.opener.postMessage({\<newline>'' @
           ''            source: '' @ [CHR 0x27] @ ''oauth'' @ [CHR 0x27] @ '',\<newline>'' @
           ''            access_token: '' @ [CHR 0x27] @ ''tok123'' @ [CHR 0x27] @ ''\<newline>'' @
           ''          }, '' @ [CHR 0x27] @ ''undefined'' @ [CHR 0x27] @ '');\<newline>'') @
       postMessage_html_after"
proof -
  have q: "\<not> truthy (query inherited_key_request (js ''error''))"
    "query inherited_key_request (js ''code'') = Some (js ''c0de'')" "js ''c0de'' \<noteq> []"
    "query inherited_key_request (js ''state'') = Some (js ''5b1e:constructor'')"
    "js ''5b1e:constructor'' \<noteq> []"
    "extractStateFromCookies inherited_key_request = Inr (Some (js ''5b1e:constructor''))"
    by code_simp+
  have f: "provider_answers token_answer (token_request dev_env (js ''c0de'')) = Inr token_answer"
    by (simp add: provider_answers_def)
  have d: "\<not> truthy (error token_answer)" "access_token token_answer = Some (js ''tok123'')"
    "js ''tok123'' \<noteq> []"
    by (simp_all add: token_answer_def js_def)
  have p: "project_of_state (js ''5b1e:constructor'') = js ''constructor''"
    by (simp add: project_of_state_def js_def)
  have o: "getFrontendOrigin dev_env (js ''constructor'') = None"
    by (simp add: getFrontendOrigin_cases Object_prototype_def js_def)
  have b: "generatePostMessageHTML (js ''tok123'') None =
       postMessage_html_before @
       js (''          window.opener.postMessage({\<newline>'' @
           ''            source: '' @ [CHR 0x27] @ ''oauth'' @ [CHR 0x27] @ '',\<newline>'' @
           ''            access_token: '' @ [CHR 0x27] @ ''tok123'' @ [CHR 0x27] @ ''\<newline>'' @
           ''          }, '' @ [CHR 0x27] @ ''undefined'' @ [CHR 0x27] @ '');\<newline>'') @
       postMessage_html_after"
    by (simp add: generatePostMessageHTML_def template_def js_def)
  from callback_success [where fetch = "provider_answers token_answer", OF valid_dev_env q f d] b
  show ?thesis
    by (simp add: p o)
qed

theorem callback_posts_to_undefined_witness:
  "statusCode (fst (callback_handler dev_env (provider_answers token_answer) inherited_key_request)) = 200
   \<and> body (fst (callback_handler dev_env (provider_answers token_answer) inherited_key_request)) =
       generatePostMessageHTML (js ''tok123'') None"
  using callback_posts_to_undefined by simp

text \<open>
  Away from the property names of \<open>Object.prototype\<close>, the target origin of a successful
  callback is one of the two registered origins, and never \<open>*\<close>.
\<close>

lemma frontend_origins_not_star:
  "frontendUrl (create (projects (getConfig e))) \<noteq> js ''*''"
  "frontendUrl (prompts (projects (getConfig e))) \<noteq> js ''*''"
  by (simp_all add: getConfig_def Let_def js_def)

lemma callback_success_registered_origin:
  assumes "project_of_state st \<notin> set Object_prototype"
  shows "\<exists>origin. getFrontendOrigin e (project_of_state st) = Some origin
    \<and> (origin = frontendUrl (create (projects (getConfig e)))
         \<or> origin = frontendUrl (prompts (projects (getConfig e))))
    \<and> origin \<noteq> js ''*''"
  using assms frontend_origins_not_star [of e] by (simp add: getFrontendOrigin_cases)

section \<open>The Cookie Codec: decoding\<close>

lemma cookie_safe_unreserved: "uri_unreserved c \<Longrightarrow> cookie_safe c"
  by (auto simp: uri_unreserved_def is_alnum_def cookie_safe_def is_white_space_def js_def)

lemma cookie_safe_percent: "cookie_safe 0x25"
  by (simp add: cookie_safe_def is_white_space_def)

lemma cookie_safe_hex_upper:
  assumes "d < 16"
  shows "cookie_safe (hex_upper d)"
proof -
  from assms have "d = 0 \<or> d = 1 \<or> d = 2 \<or> d = 3 \<or> d = 4 \<or> d = 5 \<or> d = 6 \<or> d = 7
      \<or> d = 8 \<or> d = 9 \<or> d = 10 \<or> d = 11 \<or> d = 12 \<or> d = 13 \<or> d = 14 \<or> d = 15"
    by presburger
  then show ?thesis
    by (elim disjE) (simp_all add: hex_upper_def cookie_safe_def is_white_space_def)
qed

lemma cookie_safe_percent_encode:
  assumes "\<forall>b\<in>set octets. b < 256"
  shows "\<forall>c\<in>set (percent_encode octets). cookie_safe c"
proof -
  have "cookie_safe (hex_upper (b div 16)) \<and> cookie_safe (hex_upper (b mod 16))"
    if "b < 256" for b :: nat
  proof -
    from that have "b div 16 < 16" "b mod 16 < 16" by simp_all
    then show ?thesis by (simp add: cookie_safe_hex_upper)
  qed
  with assms show ?thesis
    by (auto simp: percent_encode_def cookie_safe_percent)
qed

lemma utf8_encode_octets:
  assumes "v < 0x110000"
  shows "\<forall>b\<in>set (utf8_encode v). b < 256"
proof -
  have m: "x mod 64 < 128" for x :: nat
    using mod_less_divisor [of 64 x] by linarith
  have d: "v div 64 < 64" if "v < 2048"
    using that by linarith
  have d': "v div 4096 < 32" if "v < 65536"
    using that by linarith
  have d'': "v div 262144 < 16"
    using assms by linarith
  show ?thesis
    by (simp add: utf8_encode_def m d d' d'')
qed

lemma utf8_encode_nonempty: "utf8_encode v \<noteq> []"
  by (simp add: utf8_encode_def)

lemma percent_encode_nonempty: "octets \<noteq> [] \<Longrightarrow> percent_encode octets \<noteq> []"
  by (cases octets) (simp_all add: percent_encode_def)

lemma encodeURIComponent_cookie_safe:
  "encodeURIComponent v = Inr enc \<Longrightarrow> \<forall>c\<in>set enc. cookie_safe c"
proof (induction v arbitrary: enc rule: encodeURIComponent.induct)
  case 1
  then show ?case by simp
next
  case (2 c cs)
  show ?case
  proof (cases "uri_unreserved c")
    case True
    with "2.prems" obtain e' where e': "encodeURIComponent cs = Inr e'" "enc = c # e'"
      by (auto simp: then_append_Inr_iff)
    with "2.IH"(1) True show ?thesis
      by (simp add: cookie_safe_unreserved)
  next
    case False
    note unres = this
    show ?thesis
    proof (cases "is_high_surrogate c")
      case False
      with unres "2.prems" have low: "\<not> is_low_surrogate c"
        by (auto split: if_splits)
      with unres False "2.prems" obtain e' where e': "encodeURIComponent cs = Inr e'"
        "enc = percent_encode (utf8_encode (unat c)) @ e'"
        by (auto simp: then_append_Inr_iff)
      have "unat c < 0x110000"
        using unat_jschar_less [of c] by simp
      then have "\<forall>x\<in>set (percent_encode (utf8_encode (unat c))). cookie_safe x"
        by (intro cookie_safe_percent_encode utf8_encode_octets)
      with "2.IH"(2) unres low False e' show ?thesis
        by auto
    next
      case True
      then have low: "\<not> is_low_surrogate c"
        by (auto simp: is_high_surrogate_def is_low_surrogate_def)
      with unres True "2.prems" obtain k ks e' where cs: "cs = k # ks" and k: "is_low_surrogate k"
        and e': "encodeURIComponent ks = Inr e'"
        "enc = percent_encode (utf8_encode
               ((unat c - 0xD800) * 0x400 + (unat k - 0xDC00) + 0x10000)) @ e'"
        by (auto simp: then_append_Inr_iff split: list.splits if_splits)
      have "\<forall>x\<in>set (percent_encode (utf8_encode
               ((unat c - 0xD800) * 0x400 + (unat k - 0xDC00) + 0x10000))). cookie_safe x"
        by (intro cookie_safe_percent_encode utf8_encode_octets pair_code_point_range(1) True k)
      with "2.IH"(3) unres low True cs k e' show ?thesis
        by auto
    qed
  qed
qed

lemma encodeURIComponent_nonempty:
  assumes "encodeURIComponent v = Inr enc" "v \<noteq> []"
  shows "enc \<noteq> []"
proof -
  from assms(2) obtain c cs where v: "v = c # cs"
    by (cases v) auto
  from assms(1) show ?thesis
    unfolding v
    by (auto simp: then_append_Inr_iff percent_encode_nonempty utf8_encode_nonempty
        split: if_splits list.splits)
qed

lemma trim_unchanged:
  assumes "s \<noteq> []" "\<not> is_white_space (hd s)" "\<not> is_white_space (last s)"
  shows "trim s = s"
proof -
  from assms(1,2) have a: "dropWhile is_white_space s = s"
    by (cases s) simp_all
  from assms(1,3) have "dropWhile is_white_space (rev s) = rev s"
    by (cases "rev s") (simp_all add: hd_rev [symmetric])
  with a show ?thesis
    by (simp add: trim_def)
qed

lemma js_equals: "js ''='' = [0x3D]"
  by (simp add: js_def)

lemma createCookieHeader_no_options:
  "createCookieHeader cname v no_options =
     (case encodeURIComponent v of Inl err \<Rightarrow> Inl err | Inr enc \<Rightarrow> Inr (cname @ js ''='' @ enc))"
  by (simp add: createCookieHeader_def no_options_def split: sum.splits)

lemma parse_single_pair:
  assumes "cname \<noteq> []" and "\<forall>c\<in>set cname. cookie_safe c"
    and "enc \<noteq> []" and "\<forall>c\<in>set enc. cookie_safe c"
    and "decodeURIComponent enc = Inr v"
  shows "parseCookieHeader (cname @ js ''='' @ enc) = Inr (set_property Map.empty cname v)"
proof -
  let ?h = "cname @ js ''='' @ enc"
  have semi: "0x3B \<notin> set ?h"
    using assms(2,4) by (auto simp: cookie_safe_def js_equals)
  have eq: "0x3D \<notin> set cname" "0x3D \<notin> set enc"
    using assms(2,4) by (auto simp: cookie_safe_def)
  have "hd ?h = hd cname" "last ?h = last enc"
    using assms(1,3) by (simp_all add: js_equals)
  moreover have "cookie_safe (hd cname)" "cookie_safe (last enc)"
    using assms(1-4) by simp_all
  ultimately have "trim ?h = ?h"
    using assms(1) by (intro trim_unchanged) (simp_all add: cookie_safe_def)
  moreover have "split 0x3D ?h = [cname, enc]"
    using eq by (simp add: js_equals split_at_separator split_no_separator)
  ultimately have "cookie_pair ?h = (Some cname, Some enc)"
    by (simp add: cookie_pair_def)
  with assms(1,3,5) semi show ?thesis
    by (simp add: parseCookieHeader_def split_no_separator)
qed





lemma cookie_pair_one_equals:
  "trim piece = a @ 0x3D # b \<Longrightarrow> 0x3D \<notin> set a \<Longrightarrow> 0x3D \<notin> set b \<Longrightarrow>
     cookie_pair piece = (Some a, Some b)"
  by (simp add: cookie_pair_def split_at_separator split_no_separator)












lemmas cookie_eval = parseCookieHeader_def spec_cookie_decoder_def cookie_pair_def split_first_def
  equals_signs_def trim_def is_white_space_def set_property_def js_def hex_octet_def hex_value_def
  utf8_length_def then_append_def utf16_encode_def




section \<open>The Cookie Codec: encoding and decoding are inverse\<close>

lemma forEach_append:
  "parseCookies_forEach (ps @ qs) jar =
     (case parseCookies_forEach ps jar of Inl e \<Rightarrow> Inl e | Inr j \<Rightarrow> parseCookies_forEach qs j)"
proof (induction ps arbitrary: jar)
  case Nil
  show ?case by simp
next
  case (Cons piece ps)
  show ?case
    by (cases "cookie_pair piece") (simp add: Cons.IH split: sum.splits)
qed

lemma forEach_keeps:
  assumes "parseCookies_forEach qs jar = Inr jar'"
    and "\<forall>piece\<in>set qs. fst (cookie_pair piece) \<noteq> Some k"
  shows "jar' k = jar k"
  using assms
proof (induction qs arbitrary: jar)
  case Nil
  then show ?case by simp
next
  case (Cons piece qs)
  obtain n v where p: "cookie_pair piece = (n, v)"
    by (cases "cookie_pair piece")
  show ?case
  proof (cases "truthy n \<and> truthy v")
    case False
    with Cons p show ?thesis by auto
  next
    case True
    with Cons.prems(1) p obtain d where d: "decodeURIComponent (template v) = Inr d"
      and r: "parseCookies_forEach qs (set_property jar (template n) d) = Inr jar'"
      by (auto split: sum.splits)
    from True obtain n' where n': "n = Some n'"
      by (cases n) simp_all
    with Cons.prems(2) p have "n' \<noteq> k"
      by auto
    then have "set_property jar (template n) d k = jar k"
      by (simp add: set_property_def n')
    moreover from Cons.prems(2) have "\<forall>piece\<in>set qs. fst (cookie_pair piece) \<noteq> Some k"
      by simp
    ultimately show ?thesis
      using Cons.IH [OF r] by simp
  qed
qed

lemma forEach_pair_piece:
  assumes "trim piece = cname @ js ''='' @ enc" and "0x3D \<notin> set cname" and "0x3D \<notin> set enc"
    and "cname \<noteq> []" and "enc \<noteq> []" and "decodeURIComponent enc = Inr v"
  shows "parseCookies_forEach (piece # qs) jar = parseCookies_forEach qs (set_property jar cname v)"
proof -
  from assms(1) have "trim piece = cname @ 0x3D # enc"
    by (simp add: js_equals)
  from cookie_pair_one_equals [OF this assms(2,3)] assms(4-6) show ?thesis
    by simp
qed

text \<open>
  C9, as stated, fails for the cookie names \<open>__proto__\<close> (the assignment in the decoder
  reaches the prototype setter and binds nothing) and the empty name (the decoder passes
  over a piece whose name is empty), though neither holds \<open>=\<close>, \<open>;\<close> or whitespace.
  It also fails for a header that contains the encoder's pair followed by a pair of the
  same name, which replaces it, and for one that contains it beside a value that is
  not valid percent-encoding, where the decoder throws.
\<close>

theorem cookie_round_trip_counterexample:
  "createCookieHeader (js ''__proto__'') (js ''a'') no_options = Inr (js ''__proto__=a'')
   \<and> (\<exists>jar. parseCookieHeader (js ''__proto__=a'') = Inr jar \<and> jar (js ''__proto__'') = None)
   \<and> createCookieHeader [] (js ''a'') no_options = Inr (js ''=a'')
   \<and> (\<exists>jar. parseCookieHeader (js ''=a'') = Inr jar \<and> jar [] = None)
   \<and> createCookieHeader (js ''n'') (js ''a'') no_options = Inr (js ''n=a'')
   \<and> (\<exists>jar. parseCookieHeader (js ''n=a; n=b'') = Inr jar \<and> jar (js ''n'') = Some (js ''b''))
   \<and> parseCookieHeader (js ''n=a; t=%'') = Inl URIError"
proof -
  have c: "createCookieHeader (js ''__proto__'') (js ''a'') no_options = Inr (js ''__proto__=a'')"
    "createCookieHeader [] (js ''a'') no_options = Inr (js ''=a'')"
    "createCookieHeader (js ''n'') (js ''a'') no_options = Inr (js ''n=a'')"
    by (simp_all add: createCookieHeader_no_options encode_eval)
  have p: "parseCookieHeader (js ''__proto__=a'') = Inr Map.empty"
    "parseCookieHeader (js ''=a'') = Inr Map.empty"
    "parseCookieHeader (js ''n=a; n=b'') = Inr [js ''n'' \<mapsto> js ''b'']"
    "parseCookieHeader (js ''n=a; t=%'') = Inl URIError"
    by (simp_all add: cookie_eval)
  have e: "\<exists>jar. parseCookieHeader (js ''__proto__=a'') = Inr jar \<and> jar (js ''__proto__'') = None"
    "\<exists>jar. parseCookieHeader (js ''=a'') = Inr jar \<and> jar [] = None"
    "\<exists>jar. parseCookieHeader (js ''n=a; n=b'') = Inr jar \<and> jar (js ''n'') = Some (js ''b'')"
    unfolding p by simp_all
  show ?thesis
    by (intro conjI c e p(4))
qed

text \<open>
  C9, amended. Take a non-empty cookie name other than \<open>__proto__\<close> that holds no
  \<open>=\<close>, \<open>;\<close> or whitespace, and a non-empty value \<open>v\<close> that the encoder accepts (it
  throws on a surrogate outside a pair). The encoder's pair is the name, \<open>=\<close> and
  \<open>encodeURIComponent(v)\<close>. Decoding the header that is this pair gives a mapping in
  which the name is bound to exactly \<open>v\<close>. The same holds for every header that the
  decoder decodes without throwing and in which the pair is one of the pieces between
  \<open>;\<close> (whitespace around it is trimmed) and no later piece has the same name. So
  percent-encoding on write and percent-decoding on read are inverse, whatever
  characters \<open>v\<close> holds.
\<close>

theorem cookie_round_trip:
  assumes "cname \<noteq> []" and "cname \<noteq> js ''__proto__''"
    and "\<forall>c\<in>set cname. c \<noteq> 0x3D \<and> c \<noteq> 0x3B \<and> \<not> is_white_space c"
    and "v \<noteq> []"
    and "createCookieHeader cname v no_options = Inr pair"
  shows "(\<exists>enc. encodeURIComponent v = Inr enc \<and> pair = cname @ js ''='' @ enc)
    \<and> (\<exists>jar. parseCookieHeader pair = Inr jar \<and> jar cname = Some v)
    \<and> (\<forall>h ps piece qs jar.
          split 0x3B h = ps @ [piece] @ qs \<and> trim piece = pair
          \<and> (\<forall>q\<in>set qs. fst (cookie_pair q) \<noteq> Some cname)
          \<and> parseCookieHeader h = Inr jar \<longrightarrow>
          jar cname = Some v)"
proof -
  from assms(5) obtain enc where enc: "encodeURIComponent v = Inr enc" "pair = cname @ js ''='' @ enc"
    by (auto simp: createCookieHeader_no_options split: sum.splits)
  note safe = encodeURIComponent_cookie_safe [OF enc(1)]
  note nonempty = encodeURIComponent_nonempty [OF enc(1) assms(4)]
  note decoded = decode_encode [OF enc(1)]
  have name_safe: "\<forall>c\<in>set cname. cookie_safe c"
    using assms(3) by (simp add: cookie_safe_def)
  have eq: "0x3D \<notin> set cname" "0x3D \<notin> set enc"
    using name_safe safe by (auto simp: cookie_safe_def)
  have own: "set_property j cname v cname = Some v" for j
    using assms(2) by (simp add: set_property_def)
  have "parseCookieHeader pair = Inr (set_property Map.empty cname v)"
    unfolding enc(2) using assms(1) name_safe nonempty safe decoded by (rule parse_single_pair)
  with own have single: "\<exists>jar. parseCookieHeader pair = Inr jar \<and> jar cname = Some v"
    by blast
  have among: "jar cname = Some v"
    if h: "split 0x3B h = ps @ [piece] @ qs \<and> trim piece = pair
          \<and> (\<forall>q\<in>set qs. fst (cookie_pair q) \<noteq> Some cname)
          \<and> parseCookieHeader h = Inr jar"
    for h ps piece qs jar
  proof -
    from h have pieces: "split 0x3B h = ps @ piece # qs"
      by simp
    from h have "parseCookieHeader h = Inr jar"
      by simp
    then have run: "parseCookies_forEach (ps @ piece # qs) Map.empty = Inr jar"
      unfolding parseCookieHeader_def pieces .
    then obtain j where j: "parseCookies_forEach (piece # qs) j = Inr jar"
      by (auto simp: forEach_append split: sum.splits)
    from h have t: "trim piece = cname @ js ''='' @ enc"
      by (simp add: enc(2))
    from j have "parseCookies_forEach qs (set_property j cname v) = Inr jar"
      by (simp only: forEach_pair_piece [OF t eq assms(1) nonempty decoded])
    moreover from h have "\<forall>q\<in>set qs. fst (cookie_pair q) \<noteq> Some cname"
      by simp
    ultimately have "jar cname = set_property j cname v cname"
      by (rule forEach_keeps)
    with own show ?thesis
      by simp
  qed
  from enc single among show ?thesis
    by blast
qed

theorem cookie_round_trip_witness:
  "js ''oauth_state'' \<noteq> [] \<and> js ''oauth_state'' \<noteq> js ''__proto__''
   \<and> list_all (\<lambda>c. c \<noteq> 0x3D \<and> c \<noteq> 0x3B \<and> \<not> is_white_space c) (js ''oauth_state'')
   \<and> js ''a b;c=d:e'' \<noteq> []
   \<and> createCookieHeader (js ''oauth_state'') (js ''a b;c=d:e'') no_options =
       Inr (js ''oauth_state=a%20b%3Bc%3Dd%3Ae'')
   \<and> (\<exists>jar. parseCookieHeader (js ''oauth_state=a%20b%3Bc%3Dd%3Ae'') = Inr jar
         \<and> jar (js ''oauth_state'') = Some (js ''a b;c=d:e''))
   \<and> split 0x3B (js ''theme=dark; oauth_state=a%20b%3Bc%3Dd%3Ae; flag'') =
       [js ''theme=dark''] @ [js '' oauth_state=a%20b%3Bc%3Dd%3Ae''] @ [js '' flag'']
   \<and> trim (js '' oauth_state=a%20b%3Bc%3Dd%3Ae'') = js ''oauth_state=a%20b%3Bc%3Dd%3Ae''
   \<and> list_all (\<lambda>q. fst (cookie_pair q) \<noteq> Some (js ''oauth_state'')) [js '' flag'']
   \<and> parseCookieHeader (js ''theme=dark; oauth_state=a%20b%3Bc%3Dd%3Ae; flag'') =
       Inr [js ''theme'' \<mapsto> js ''dark'', js ''oauth_state'' \<mapsto> js ''a b;c=d:e'']
   \<and> [js ''theme'' \<mapsto> js ''dark'', js ''oauth_state'' \<mapsto> js ''a b;c=d:e''] (js ''oauth_state'') =
       Some (js ''a b;c=d:e'')"
proof -
  let ?full = "js ''theme=dark; oauth_state=a%20b%3Bc%3Dd%3Ae; flag''"
  let ?jar = "[js ''theme'' \<mapsto> js ''dark'', js ''oauth_state'' \<mapsto> js ''a b;c=d:e'']"
  have n: "js ''oauth_state'' \<noteq> []" "js ''oauth_state'' \<noteq> js ''__proto__''" "js ''a b;c=d:e'' \<noteq> []"
    by (simp_all add: js_def)
  have s: "list_all (\<lambda>c. c \<noteq> 0x3D \<and> c \<noteq> 0x3B \<and> \<not> is_white_space c) (js ''oauth_state'')"
    by (simp add: js_def is_white_space_def)
  then have s': "\<forall>c\<in>set (js ''oauth_state''). c \<noteq> 0x3D \<and> c \<noteq> 0x3B \<and> \<not> is_white_space c"
    by (simp only: list_all_iff)
  have h: "createCookieHeader (js ''oauth_state'') (js ''a b;c=d:e'') no_options =
       Inr (js ''oauth_state=a%20b%3Bc%3Dd%3Ae'')"
    by (simp add: createCookieHeader_no_options encode_eval)
  have p: "split 0x3B ?full =
       [js ''theme=dark''] @ [js '' oauth_state=a%20b%3Bc%3Dd%3Ae''] @ [js '' flag'']"
    by (simp add: js_def)
  have t: "trim (js '' oauth_state=a%20b%3Bc%3Dd%3Ae'') = js ''oauth_state=a%20b%3Bc%3Dd%3Ae''"
    by (simp add: js_def trim_def is_white_space_def)
  have q: "list_all (\<lambda>q. fst (cookie_pair q) \<noteq> Some (js ''oauth_state'')) [js '' flag'']"
    by (simp add: cookie_eval)
  then have q': "\<forall>q\<in>set [js '' flag'']. fst (cookie_pair q) \<noteq> Some (js ''oauth_state'')"
    by (simp only: list_all_iff)
  have r: "parseCookieHeader ?full = Inr ?jar"
    by (simp add: cookie_eval)
  note trip = cookie_round_trip [OF n(1,2) s' n(3) h]
  note single = trip [THEN conjunct2, THEN conjunct1]
  have among: "?jar (js ''oauth_state'') = Some (js ''a b;c=d:e'')"
    by (rule trip [THEN conjunct2, THEN conjunct2, rule_format,
          OF conjI [OF p conjI [OF t conjI [OF q' r]]]])
  show ?thesis
    by (intro conjI n s h single p t q r among)
qed

end
